theory Spec2Isabelle
  imports Main
begin

section \<open>Data model (types/ticket.ts)\<close>

text \<open>
  A JavaScript \<open>Date\<close> is modelled by its value, the milliseconds since the epoch.
  Converting a \<open>Date\<close> to an ISO string and back (\<open>toISOString\<close>, \<open>new Date(s)\<close>)
  keeps that value, so both representations are the same \<open>time\<close> here.
  Every \<open>new Date()\<close> of the source is a reading of the clock and is an argument of the
  function that takes it: two readings in one function are two arguments.
\<close>

type_synonym time = int

datatype ticket_type = Fault | Maintenance | Inspection | Upgrade

datatype ticket_status = Open | Assigned | In_progress | Resolved | Verified | Closed

datatype priority = Low | Medium | High | Critical

datatype role = Admin | Supervisor | Field_engineer

text \<open>
  The exceptions of the source. All of them are plain \<open>Error\<close> objects told apart by
  their message; \<open>ProviderError\<close> stands for whatever the live backend rejects with.
\<close>

datatype error =
    NotAuthenticated
  | UserNotFound
  | TicketNotFound
  | FallbackDisabled string
  | ProviderError string

record user_profile =
  p_id :: string
  email :: string
  full_name :: "string option"
  role :: role
  is_active :: bool

text \<open>
  An optional field (\<open>assigned_to?: string\<close>) holds \<open>None\<close> for \<open>undefined\<close> and for
  \<open>null\<close>: the source only ever tests such a field for truthiness or compares it with a
  string. The numeric fields (coordinates, hours, costs) and the hydrated \<open>equipment\<close>
  object are left out; no operation below reads them.
\<close>

record ticket =
  id' :: string
  ticket_number :: "string option"
  title :: string
  description :: string
  type' :: ticket_type
  priority :: priority
  status :: ticket_status
  location :: string
  equipment_id :: "string option"
  created_by :: string
  assigned_to :: "string option"
  verified_by :: "string option"
  created_at :: time
  updated_at :: time
  assigned_at :: "time option"
  resolved_at :: "time option"
  verified_at :: "time option"
  due_date :: "time option"
  notes' :: "string option"
  created_by_profile :: "user_profile option"
  assigned_to_profile :: "user_profile option"
  verified_by_profile :: "user_profile option"

text \<open>
  \<open>Partial<Ticket>\<close>, over the keys of the record above that an update can carry:
  every key may be absent. The value of a key of an optional field is \<open>undefined\<close>,
  \<open>null\<close> or a proper value. An object spread copies \<open>undefined\<close> like any other
  value, while a JSON request body leaves a key with the value \<open>undefined\<close> out, so the
  two are kept apart in a patch.
\<close>

datatype 'a upd = Absent | Present 'a

datatype 'a jsopt = Undefined | Null | Val 'a

record updates =
  u_id :: "string upd"
  u_title :: "string upd"
  u_description :: "string upd"
  u_type :: "ticket_type upd"
  u_priority :: "priority upd"
  u_status :: "ticket_status upd"
  u_location :: "string upd"
  u_equipment_id :: "string jsopt upd"
  u_created_by :: "string upd"
  u_assigned_to :: "string jsopt upd"
  u_verified_by :: "string jsopt upd"
  u_created_at :: "time upd"
  u_updated_at :: "time upd"
  u_assigned_at :: "time jsopt upd"
  u_resolved_at :: "time jsopt upd"
  u_verified_at :: "time jsopt upd"
  u_due_date :: "time jsopt upd"

text \<open>The argument of \<open>createTicket\<close>.\<close>

record ticket_data =
  d_title :: string
  d_description :: string
  d_type :: "ticket_type option"
  d_priority :: "priority option"
  d_location :: string
  d_equipment_id :: "string option"
  d_due_date :: "time option"

datatype activity_type =
  Created | Assigned_activity | Status_change | Comment | Media_upload | Verification

record activity =
  a_id :: string
  a_ticket_id :: string
  a_user_id :: string
  a_type :: activity_type
  a_description :: string
  a_created_at :: time
  a_user_profile :: "user_profile option"

section \<open>JavaScript primitives\<close>

text \<open>Truthiness of a string that may be \<open>undefined\<close> or \<open>null\<close>: the empty string is falsy.\<close>

fun truthy_str :: "string option \<Rightarrow> bool" where
  "truthy_str None = False"
| "truthy_str (Some s) = (s \<noteq> [])"

text \<open>What a stored optional field holds for a value of a patch.\<close>

fun to_option :: "'a jsopt \<Rightarrow> 'a option" where
  "to_option Undefined = None"
| "to_option Null = None"
| "to_option (Val v) = Some v"

text \<open>Truthiness of \<open>updates.k\<close> for a key holding a date: any \<open>Date\<close> object is truthy.\<close>

fun truthy_date :: "time jsopt upd \<Rightarrow> bool" where
  "truthy_date (Present (Val _)) = True"
| "truthy_date _ = False"

fun truthy_str_upd :: "string jsopt upd \<Rightarrow> bool" where
  "truthy_str_upd (Present v) = truthy_str (to_option v)"
| "truthy_str_upd Absent = False"

text \<open>
  One key of an object spread \<open>{...t, ...u}\<close>: a present key of \<open>u\<close> wins. \<open>pick\<close>
  is for a required field, \<open>pick_opt\<close> for an optional one.
\<close>

fun pick :: "'a \<Rightarrow> 'a upd \<Rightarrow> 'a" where
  "pick old Absent = old"
| "pick old (Present v) = v"

fun pick_opt :: "'a option \<Rightarrow> 'a jsopt upd \<Rightarrow> 'a option" where
  "pick_opt old Absent = old"
| "pick_opt old (Present v) = to_option v"

definition spread :: "ticket \<Rightarrow> updates \<Rightarrow> ticket" where
  "spread t u = t\<lparr>
     id' := pick (id' t) (u_id u),
     title := pick (title t) (u_title u),
     description := pick (description t) (u_description u),
     type' := pick (type' t) (u_type u),
     priority := pick (priority t) (u_priority u),
     status := pick (status t) (u_status u),
     location := pick (location t) (u_location u),
     equipment_id := pick_opt (equipment_id t) (u_equipment_id u),
     created_by := pick (created_by t) (u_created_by u),
     assigned_to := pick_opt (assigned_to t) (u_assigned_to u),
     verified_by := pick_opt (verified_by t) (u_verified_by u),
     created_at := pick (created_at t) (u_created_at u),
     updated_at := pick (updated_at t) (u_updated_at u),
     assigned_at := pick_opt (assigned_at t) (u_assigned_at u),
     resolved_at := pick_opt (resolved_at t) (u_resolved_at u),
     verified_at := pick_opt (verified_at t) (u_verified_at u),
     due_date := pick_opt (due_date t) (u_due_date u)\<rparr>"

text \<open>\<open>Array.prototype.findIndex\<close>: the first index whose element passes, \<open>None\<close> for \<open>-1\<close>.\<close>

fun findIndex :: "('a \<Rightarrow> bool) \<Rightarrow> 'a list \<Rightarrow> nat option" where
  "findIndex P [] = None"
| "findIndex P (x # xs) =
     (if P x then Some 0 else map_option Suc (findIndex P xs))"

text \<open>\<open>String(n)\<close> for a non-negative integer, and \<open>padStart(3, '0')\<close>.\<close>

fun String_of :: "nat \<Rightarrow> string" where
  "String_of n =
     (if n < 10 then [''0123456789'' ! n]
      else String_of (n div 10) @ [''0123456789'' ! (n mod 10)])"

declare String_of.simps [simp del]

definition padStart3 :: "string \<Rightarrow> string" where
  "padStart3 s = replicate (3 - length s) (CHR ''0'') @ s"

section \<open>The in-memory provider (lib/mock-data.ts)\<close>

record mock_db =
  currentMockTickets :: "ticket list"
  nextTicketId :: nat
  mockUsers :: "user_profile list"

definition mock_admin :: user_profile where
  "mock_admin = \<lparr>p_id = ''1'', email = ''admin@test.com'', full_name = Some ''Admin User'',
     role = Admin, is_active = True\<rparr>"

definition mock_supervisor :: user_profile where
  "mock_supervisor = \<lparr>p_id = ''2'', email = ''supervisor@test.com'',
     full_name = Some ''Supervisor User'', role = Supervisor, is_active = True\<rparr>"

definition mock_engineer :: user_profile where
  "mock_engineer = \<lparr>p_id = ''3'', email = ''engineer@test.com'',
     full_name = Some ''Field Engineer'', role = Field_engineer, is_active = True\<rparr>"

definition mockUsers0 :: "user_profile list" where
  "mockUsers0 = [mock_admin, mock_supervisor, mock_engineer]"

definition mockTicket1 :: ticket where
  "mockTicket1 = \<lparr>id' = ''1'', ticket_number = Some ''TKT-001'',
     title = ''Air Conditioning Unit Repair'',
     description = ''HVAC unit in Building A is not cooling properly. '' @
       ''Temperature readings show 28'' @ [CHR 0xC2, CHR 0xB0] @ ''C when should be 22'' @
       [CHR 0xC2, CHR 0xB0] @ ''C.'',
     type' = Maintenance, priority = High, status = Open,
     location = ''Building A - Floor 2'', equipment_id = Some ''1'',
     created_by = ''1'', assigned_to = Some ''3'', verified_by = None,
     created_at = 1705309200000, updated_at = 1705309200000,
     assigned_at = None, resolved_at = None, verified_at = None,
     due_date = Some 1705510800000,
     notes' = Some ''Customer reports room too warm since yesterday'',
     created_by_profile = Some mock_admin, assigned_to_profile = Some mock_engineer,
     verified_by_profile = None\<rparr>"

definition mockTicket2 :: ticket where
  "mockTicket2 = \<lparr>id' = ''2'', ticket_number = Some ''TKT-002'',
     title = ''Elevator Inspection'',
     description = ''Monthly safety inspection for elevator in Building B'',
     type' = Inspection, priority = Medium, status = In_progress,
     location = ''Building B - Lobby'', equipment_id = Some ''2'',
     created_by = ''2'', assigned_to = Some ''3'', verified_by = None,
     created_at = 1705228200000, updated_at = 1705307400000,
     assigned_at = Some 1705230000000, resolved_at = None, verified_at = None,
     due_date = Some 1705417200000,
     notes' = Some ''Routine monthly inspection as per safety regulations'',
     created_by_profile = Some mock_supervisor, assigned_to_profile = Some mock_engineer,
     verified_by_profile = None\<rparr>"

definition mockTicket3 :: ticket where
  "mockTicket3 = \<lparr>id' = ''3'', ticket_number = Some ''TKT-003'',
     title = ''Fire Safety System Check'',
     description = ''Quarterly fire safety system inspection and testing'',
     type' = Inspection, priority = High, status = Resolved,
     location = ''Building C - All Floors'', equipment_id = Some ''3'',
     created_by = ''1'', assigned_to = Some ''3'', verified_by = Some ''2'',
     created_at = 1704895200000, updated_at = 1705077000000,
     assigned_at = Some 1704897000000, resolved_at = Some 1705071600000,
     verified_at = Some 1705077000000,
     due_date = Some 1705338000000,
     notes' = Some ''All systems functioning properly. Minor sensor calibration performed.'',
     created_by_profile = Some mock_admin, assigned_to_profile = Some mock_engineer,
     verified_by_profile = Some mock_supervisor\<rparr>"

definition mockTickets :: "ticket list" where
  "mockTickets = [mockTicket1, mockTicket2, mockTicket3]"

text \<open>The module state when the module has just been loaded.\<close>

definition mock_db0 :: mock_db where
  "mock_db0 = \<lparr>currentMockTickets = mockTickets, nextTicketId = 4, mockUsers = mockUsers0\<rparr>"

text \<open>
  Every helper takes the module state and returns it with its result (\<open>Inl\<close> is a thrown
  error). The simulated network delays do nothing else and are left out.
\<close>

definition mock_getTicketsWithRelations ::
  "string option \<Rightarrow> role option \<Rightarrow> mock_db \<Rightarrow> (error + ticket list) \<times> mock_db" where
  "mock_getTicketsWithRelations userId rl m =
     (if rl = Some Field_engineer \<and> truthy_str userId
      then (Inr (filter (\<lambda>t. Some (created_by t) = userId \<or> assigned_to t = userId)
                  (currentMockTickets m)), m)
      else (Inr (currentMockTickets m), m))"

definition mock_createTicket ::
  "ticket_data \<Rightarrow> string \<Rightarrow> time \<Rightarrow> time \<Rightarrow> mock_db \<Rightarrow> (error + ticket) \<times> mock_db" where
  "mock_createTicket ticketData userId now1 now2 m =
     (case find (\<lambda>u. p_id u = userId) (mockUsers m) of
        None \<Rightarrow> (Inl UserNotFound, m)
      | Some currentUser \<Rightarrow>
          (let newTicket = \<lparr>
                 id' = String_of (nextTicketId m),
                 ticket_number = Some (''TKT-'' @ padStart3 (String_of (nextTicketId m))),
                 title = d_title ticketData,
                 description = d_description ticketData,
                 type' = (case d_type ticketData of None \<Rightarrow> Maintenance | Some ty \<Rightarrow> ty),
                 priority = (case d_priority ticketData of None \<Rightarrow> Medium | Some p \<Rightarrow> p),
                 status = Open,
                 location = d_location ticketData,
                 equipment_id =
                   (if truthy_str (d_equipment_id ticketData) then d_equipment_id ticketData
                    else None),
                 created_by = userId,
                 assigned_to = None,
                 verified_by = None,
                 created_at = now1,
                 updated_at = now2,
                 assigned_at = None, resolved_at = None, verified_at = None,
                 due_date = d_due_date ticketData,
                 notes' = None,
                 created_by_profile = Some currentUser,
                 assigned_to_profile = None,
                 verified_by_profile = None\<rparr>
           in (Inr newTicket,
               m\<lparr>currentMockTickets := newTicket # currentMockTickets m,
                  nextTicketId := Suc (nextTicketId m)\<rparr>)))"

text \<open>
  \<open>getTicketActivities\<close> builds three entries from its argument and three readings of
  the clock; it reads nothing of the module state.
\<close>

definition mock_getTicketActivities ::
  "string \<Rightarrow> time \<Rightarrow> time \<Rightarrow> time \<Rightarrow> mock_db \<Rightarrow> (error + activity list) \<times> mock_db" where
  "mock_getTicketActivities ticketId now1 now2 now3 m =
     (Inr [\<lparr>a_id = ''act-'' @ ticketId @ ''-1'', a_ticket_id = ticketId, a_user_id = ''1'',
            a_type = Created, a_description = ''Ticket created'',
            a_created_at = now1 - 24 * 60 * 60 * 1000,
            a_user_profile = (case mockUsers m of u # _ \<Rightarrow> Some u | _ \<Rightarrow> None)\<rparr>,
           \<lparr>a_id = ''act-'' @ ticketId @ ''-2'', a_ticket_id = ticketId, a_user_id = ''2'',
            a_type = Assigned_activity, a_description = ''Ticket assigned to Field Engineer'',
            a_created_at = now2 - 23 * 60 * 60 * 1000,
            a_user_profile = (case mockUsers m of _ # u # _ \<Rightarrow> Some u | _ \<Rightarrow> None)\<rparr>,
           \<lparr>a_id = ''act-'' @ ticketId @ ''-3'', a_ticket_id = ticketId, a_user_id = ''3'',
            a_type = Comment, a_description = ''Started investigating the issue'',
            a_created_at = now3 - 2 * 60 * 60 * 1000,
            a_user_profile = (case mockUsers m of _ # _ # u # _ \<Rightarrow> Some u | _ \<Rightarrow> None)\<rparr>],
      m)"

definition mock_updateTicket ::
  "string \<Rightarrow> updates \<Rightarrow> time \<Rightarrow> mock_db \<Rightarrow> (error + ticket) \<times> mock_db" where
  "mock_updateTicket ticketId upds now m =
     (case findIndex (\<lambda>t. id' t = ticketId) (currentMockTickets m) of
        None \<Rightarrow> (Inl TicketNotFound, m)
      | Some ticketIndex \<Rightarrow>
          (let updatedTicket = (spread (currentMockTickets m ! ticketIndex) upds)
                 \<lparr>updated_at := now\<rparr>;
               updatedTicket' =
                 (if truthy_str_upd (u_assigned_to upds)
                  then (case find (\<lambda>u. Some (p_id u) = pick_opt None (u_assigned_to upds))
                               (mockUsers m) of
                          None \<Rightarrow> updatedTicket
                        | Some assignedProfile \<Rightarrow>
                            updatedTicket\<lparr>assigned_to_profile := Some assignedProfile\<rparr>)
                  else updatedTicket)
           in (Inr updatedTicket',
               m\<lparr>currentMockTickets := (currentMockTickets m)[ticketIndex := updatedTicket']\<rparr>)))"

section \<open>The live provider and its fallback (lib/supabase.ts)\<close>

text \<open>
  The Supabase client is an external service. Each of its queries is a parameter: a
  function from what the source sends to what comes back, \<open>Inl\<close> when the query
  rejects. \<open>select_tickets\<close> takes the user id of the \<open>or\<close>-filter, \<open>None\<close> when the
  source adds no filter; \<open>insert_ticket\<close> takes the draft and \<open>created_by\<close>.
\<close>

record backend =
  select_tickets :: "string option \<Rightarrow> error + ticket list"
  insert_ticket :: "ticket_data \<Rightarrow> string \<Rightarrow> error + ticket"
  update_ticket :: "string \<Rightarrow> updates \<Rightarrow> error + ticket"
  select_activities :: "string \<Rightarrow> error + activity list"

text \<open>
  What the modules read but never write: the signed-in user (\<open>user.id\<close>, \<open>None\<close> when
  nobody is signed in), \<open>profile.role\<close>, \<open>config.supabase.isConfigured\<close> and
  \<open>isFeatureEnabled('enableMockFallback')\<close>.
\<close>

record env =
  user :: "string option"
  profile :: "role option"
  isConfigured :: bool
  enableMockFallback :: bool

text \<open>
  What they write: the in-memory provider's state, the flag \<open>supabaseAvailable\<close>, and the
  \<open>tickets\<close> state of the \<open>useTickets\<close> hook. \<open>supabaseCalls\<close> is not in the source:
  it records, in order, each query that an operation really sends to the live backend, so
  that "without attempting the live backend" can be stated. The query of the connectivity
  probe below is no operation's attempt and is not recorded.
\<close>

record world =
  mock :: mock_db
  supabaseAvailable :: bool
  supabaseCalls :: "string list"
  tickets :: "ticket list"

definition run_mock ::
  "(mock_db \<Rightarrow> (error + 'a) \<times> mock_db) \<Rightarrow> world \<Rightarrow> (error + 'a) \<times> world" where
  "run_mock mockOperation w =
     (case mockOperation (mock w) of (r, m') \<Rightarrow> (r, w\<lparr>mock := m'\<rparr>))"

text \<open>
  \<open>checkSupabaseConnection\<close>, which the module starts when it is loaded with Supabase
  configured and does not await. \<open>probe\<close> is the outcome of its count query. The part
  after the query runs whenever the answer arrives, before, between or after the
  operations of the session; a failing answer turns the flag off.
\<close>

definition checkSupabaseConnection :: "env \<Rightarrow> (error + unit) \<Rightarrow> world \<Rightarrow> bool \<times> world" where
  "checkSupabaseConnection e probe w =
     (if \<not> isConfigured e then (False, w)
      else (case probe of
              Inr _ \<Rightarrow> (True, w)
            | Inl err \<Rightarrow> (False, w\<lparr>supabaseAvailable := False\<rparr>)))"

text \<open>
  \<open>withFallback\<close>. \<open>supabaseOperation\<close> is the outcome the live operation has if it is
  invoked; it is invoked exactly where \<open>supabaseCalls\<close> grows.
\<close>

definition withFallback ::
  "env \<Rightarrow> (error + 'a) \<Rightarrow> (mock_db \<Rightarrow> (error + 'a) \<times> mock_db) \<Rightarrow> string \<Rightarrow> world
     \<Rightarrow> (error + 'a) \<times> world" where
  "withFallback e supabaseOperation mockOperation operationName w =
     (if \<not> supabaseAvailable w \<or> \<not> isConfigured e
      then (if enableMockFallback e then run_mock mockOperation w
            else (Inl (FallbackDisabled operationName), w))
      else (let w1 = w\<lparr>supabaseCalls := supabaseCalls w @ [operationName]\<rparr>
            in case supabaseOperation of
                 Inr r \<Rightarrow> (Inr r, w1)
               | Inl err \<Rightarrow>
                   (if enableMockFallback e
                    then run_mock mockOperation (w1\<lparr>supabaseAvailable := False\<rparr>)
                    else (Inl err, w1))))"

definition dbHelpers_getTicketsWithRelations ::
  "env \<Rightarrow> backend \<Rightarrow> string option \<Rightarrow> role option \<Rightarrow> world
     \<Rightarrow> (error + ticket list) \<times> world" where
  "dbHelpers_getTicketsWithRelations e b userId rl w =
     withFallback e
       (select_tickets b (if rl = Some Field_engineer \<and> truthy_str userId then userId else None))
       (mock_getTicketsWithRelations userId rl)
       ''getTicketsWithRelations'' w"

text \<open>
  A query made on \<open>supabase\<close> directly, outside \<open>withFallback\<close>: when Supabase is not
  configured the client is \<open>null\<close> and the call throws before anything is sent.
\<close>

definition supabase_call :: "env \<Rightarrow> (error + 'a) \<Rightarrow> string \<Rightarrow> world \<Rightarrow> (error + 'a) \<times> world" where
  "supabase_call e query name w =
     (if isConfigured e then (query, w\<lparr>supabaseCalls := supabaseCalls w @ [name]\<rparr>)
      else (Inl (ProviderError ''supabase is null''), w))"

section \<open>The ticket hook (hooks/useTickets)\<close>

text \<open>
  The notification functions come from another hook; each is a parameter that may throw.
\<close>

record notifier =
  notifyTicketCreated :: "ticket \<Rightarrow> error + unit"
  notifyTicketResolved :: "ticket \<Rightarrow> string \<Rightarrow> error + unit"
  notifyTicketAssigned :: "ticket \<Rightarrow> string \<Rightarrow> string \<Rightarrow> error + unit"

text \<open>
  \<open>loadTickets\<close> is the list operation: it stores what it read in \<open>tickets\<close>. Toasts,
  console output and the \<open>loading\<close> and \<open>error\<close> states are not modelled.
\<close>

definition loadTickets :: "env \<Rightarrow> backend \<Rightarrow> world \<Rightarrow> world" where
  "loadTickets e b w =
     (case user e of
        None \<Rightarrow> w
      | Some uid \<Rightarrow>
          (case profile e of
             None \<Rightarrow> w
           | Some rl \<Rightarrow>
               (case dbHelpers_getTicketsWithRelations e b (Some uid) (Some rl) w of
                  (Inr data, w1) \<Rightarrow> w1\<lparr>tickets := data\<rparr>
                | (Inl supabaseError, w1) \<Rightarrow>
                    (case run_mock (mock_getTicketsWithRelations (Some uid) (Some rl)) w1 of
                       (Inr data, w2) \<Rightarrow> w2\<lparr>tickets := data\<rparr>
                     | (Inl err, w2) \<Rightarrow> w2))))"

text \<open>The \<open>try\<close> around the notification: whatever it throws is logged and dropped.\<close>

definition swallow :: "error + unit \<Rightarrow> 'a \<Rightarrow> 'a" where
  "swallow r k = (case r of Inl notificationError \<Rightarrow> k | Inr _ \<Rightarrow> k)"

definition createTicket ::
  "env \<Rightarrow> backend \<Rightarrow> notifier \<Rightarrow> time \<Rightarrow> time \<Rightarrow> ticket_data \<Rightarrow> world
     \<Rightarrow> (error + ticket) \<times> world" where
  "createTicket e b ntf now1 now2 ticketData w =
     (case user e of
        None \<Rightarrow> (Inl NotAuthenticated, w)
      | Some uid \<Rightarrow>
          (case (case supabase_call e (insert_ticket b ticketData uid) ''tickets.insert'' w of
                   (Inr data, w1) \<Rightarrow> (Inr data, w1)
                 | (Inl supabaseError, w1) \<Rightarrow>
                     run_mock (mock_createTicket ticketData uid now1 now2) w1) of
             (Inl err, w2) \<Rightarrow> (Inl err, w2)
           | (Inr transformedTicket, w2) \<Rightarrow>
               swallow (notifyTicketCreated ntf transformedTicket)
                 (Inr transformedTicket, w2\<lparr>tickets := transformedTicket # tickets w2\<rparr>)))"

text \<open>The payload \<open>dbUpdates\<close> that \<open>updateTicket\<close> builds for the live backend.\<close>

definition dbUpdates :: "updates \<Rightarrow> string \<Rightarrow> time \<Rightarrow> updates" where
  "dbUpdates upds uid now =
     (let d1 = (if u_status upds = Present Assigned \<and> \<not> truthy_date (u_assigned_at upds)
                then upds\<lparr>u_assigned_at := Present (Val now)\<rparr> else upds);
          d2 = (if u_status upds = Present Resolved \<and> \<not> truthy_date (u_resolved_at upds)
                then d1\<lparr>u_resolved_at := Present (Val now)\<rparr> else d1);
          d3 = (if u_status upds = Present Verified \<and> \<not> truthy_date (u_verified_at upds)
                then d2\<lparr>u_verified_at := Present (Val now),
                        u_verified_by := Present (Val uid)\<rparr> else d2)
      in d3)"

definition notify_update :: "notifier \<Rightarrow> updates \<Rightarrow> ticket \<Rightarrow> string \<Rightarrow> error + unit" where
  "notify_update ntf upds transformedTicket uid =
     (case (if u_status upds = Present Resolved
            then notifyTicketResolved ntf transformedTicket uid else Inr ()) of
        Inl err \<Rightarrow> Inl err
      | Inr _ \<Rightarrow>
          (if truthy_str_upd (u_assigned_to upds)
              \<and> pick_opt None (u_assigned_to upds) \<noteq> Some (created_by transformedTicket)
           then notifyTicketAssigned ntf transformedTicket
                  (case pick_opt None (u_assigned_to upds) of Some a \<Rightarrow> a | None \<Rightarrow> []) uid
           else Inr ()))"

definition updateTicket ::
  "env \<Rightarrow> backend \<Rightarrow> notifier \<Rightarrow> time \<Rightarrow> time \<Rightarrow> string \<Rightarrow> updates \<Rightarrow> world
     \<Rightarrow> (error + ticket) \<times> world" where
  "updateTicket e b ntf now_stamp now_mock ticketId upds w =
     (case user e of
        None \<Rightarrow> (Inl NotAuthenticated, w)
      | Some uid \<Rightarrow>
          (case (case supabase_call e (update_ticket b ticketId (dbUpdates upds uid now_stamp))
                        ''tickets.update'' w of
                   (Inr data, w1) \<Rightarrow> (Inr data, w1)
                 | (Inl supabaseError, w1) \<Rightarrow>
                     run_mock (mock_updateTicket ticketId upds now_mock) w1) of
             (Inl err, w2) \<Rightarrow> (Inl err, w2)
           | (Inr transformedTicket, w2) \<Rightarrow>
               swallow (notify_update ntf upds transformedTicket uid)
                 (Inr transformedTicket,
                  w2\<lparr>tickets :=
                       map (\<lambda>t. if id' t = ticketId then transformedTicket else t)
                         (tickets w2)\<rparr>)))"

text \<open>
  The empty patch, and the patch \<open>assignTicket\<close> passes on. Its argument is a string or
  \<open>null\<close>; without an assignee the patch has \<open>assigned_to: null\<close> and
  \<open>assigned_at: undefined\<close>.
\<close>

definition no_updates :: updates where
  "no_updates = \<lparr>u_id = Absent, u_title = Absent, u_description = Absent, u_type = Absent,
     u_priority = Absent, u_status = Absent, u_location = Absent, u_equipment_id = Absent,
     u_created_by = Absent, u_assigned_to = Absent, u_verified_by = Absent,
     u_created_at = Absent, u_updated_at = Absent, u_assigned_at = Absent,
     u_resolved_at = Absent, u_verified_at = Absent, u_due_date = Absent\<rparr>"

definition assign_updates :: "string option \<Rightarrow> time \<Rightarrow> updates" where
  "assign_updates assignedTo now =
     no_updates\<lparr>
       u_assigned_to := Present (case assignedTo of None \<Rightarrow> Null | Some a \<Rightarrow> Val a),
       u_status := Present (if truthy_str assignedTo then Assigned else Open),
       u_assigned_at := Present (if truthy_str assignedTo then Val now else Undefined)\<rparr>"

definition assignTicket ::
  "env \<Rightarrow> backend \<Rightarrow> notifier \<Rightarrow> time \<Rightarrow> time \<Rightarrow> time \<Rightarrow> string \<Rightarrow> string option \<Rightarrow> world
     \<Rightarrow> (error + ticket) \<times> world" where
  "assignTicket e b ntf now_assign now_stamp now_mock ticketId assignedTo w =
     updateTicket e b ntf now_stamp now_mock ticketId (assign_updates assignedTo now_assign) w"

text \<open>\<open>getTicketActivities\<close> of the hook: any failure ends in the empty list.\<close>

definition getTicketActivities ::
  "env \<Rightarrow> backend \<Rightarrow> string \<Rightarrow> time \<Rightarrow> time \<Rightarrow> time \<Rightarrow> world \<Rightarrow> activity list \<times> world" where
  "getTicketActivities e b ticketId now1 now2 now3 w =
     (case supabase_call e (select_activities b ticketId) ''ticket_activities.select'' w of
        (Inr data, w1) \<Rightarrow> (data, w1)
      | (Inl supabaseError, w1) \<Rightarrow>
          (case run_mock (mock_getTicketActivities ticketId now1 now2 now3) w1 of
             (Inr data, w2) \<Rightarrow> (data, w2)
           | (Inl err, w2) \<Rightarrow> ([], w2)))"

section \<open>Running a session of provider operations\<close>

text \<open>
  An operation routed through \<open>withFallback\<close>, as \<open>dbHelpers\<close> builds them: its name,
  the outcome of its live query, and its in-memory counterpart.
\<close>

record 'a operation =
  op_name :: string
  op_live :: "error + 'a"
  op_mock :: "mock_db \<Rightarrow> (error + 'a) \<times> mock_db"

text \<open>
  A session is a sequence of steps: a call of such an operation, or the arrival of the
  answer to the connectivity probe. The runtime is single-threaded and the flag is read
  when an operation starts, so an answer that arrives while an operation waits has the
  effect of one that arrives right after it.
\<close>

datatype 'a step = Call "'a operation" | Probe_done "error + unit"

fun run_steps :: "env \<Rightarrow> 'a step list \<Rightarrow> world \<Rightarrow> (error + 'a) list \<times> world" where
  "run_steps e [] w = ([], w)"
| "run_steps e (Call x # xs) w =
     (case withFallback e (op_live x) (op_mock x) (op_name x) w of
        (r, w1) \<Rightarrow> (case run_steps e xs w1 of (rs, w2) \<Rightarrow> (r # rs, w2)))"
| "run_steps e (Probe_done probe # xs) w =
     run_steps e xs (snd (checkSupabaseConnection e probe w))"

text \<open>The operations called in a session, and whether a step goes without a live failure.\<close>

fun calls :: "'a step list \<Rightarrow> 'a operation list" where
  "calls [] = []"
| "calls (Call x # xs) = x # calls xs"
| "calls (Probe_done probe # xs) = calls xs"

fun step_ok :: "'a step \<Rightarrow> bool" where
  "step_ok (Call x) = (\<not> isl (op_live x))"
| "step_ok (Probe_done probe) = (\<not> isl probe)"

text \<open>Operations served by the in-memory provider alone.\<close>

fun mock_ops :: "'a operation list \<Rightarrow> mock_db \<Rightarrow> (error + 'a) list \<times> mock_db" where
  "mock_ops [] m = ([], m)"
| "mock_ops (x # xs) m =
     (case op_mock x m of
        (r, m1) \<Rightarrow> (case mock_ops xs m1 of (rs, m2) \<Rightarrow> (r # rs, m2)))"

section \<open>The specification's vocabulary\<close>

text \<open>
  The visibility rule of the specification's \<open>list\<close>: a field engineer sees the tickets
  they created or are assigned to.
\<close>

definition visible_to :: "string \<Rightarrow> ticket \<Rightarrow> bool" where
  "visible_to uid t = (created_by t = uid \<or> assigned_to t = Some uid)"

text \<open>The edges of the specification's transition table.\<close>

fun transition_table :: "ticket_status \<Rightarrow> ticket_status \<Rightarrow> bool" where
  "transition_table Open Assigned = True"
| "transition_table Assigned In_progress = True"
| "transition_table Assigned Open = True"
| "transition_table In_progress Open = True"
| "transition_table In_progress Resolved = True"
| "transition_table Assigned Resolved = True"
| "transition_table Resolved Verified = True"
| "transition_table Verified Closed = True"
| "transition_table _ _ = False"

text \<open>The specification's elevated roles.\<close>

fun elevated :: "role \<Rightarrow> bool" where
  "elevated Admin = True"
| "elevated Supervisor = True"
| "elevated Field_engineer = False"

section \<open>Example inputs\<close>

text \<open>
  The state right after the modules are loaded with Supabase configured, the answer to
  the connectivity probe not yet there.
\<close>

definition world0 :: world where
  "world0 = \<lparr>mock = mock_db0, supabaseAvailable = True, supabaseCalls = [], tickets = []\<rparr>"

definition env_of :: "string \<Rightarrow> role \<Rightarrow> env" where
  "env_of uid rl = \<lparr>user = Some uid, profile = Some rl, isConfigured = True,
     enableMockFallback = True\<rparr>"

text \<open>A live backend that rejects every query, and one that answers with an empty table.\<close>

definition backend_down :: backend where
  "backend_down = \<lparr>
     select_tickets = (\<lambda>_. Inl (ProviderError ''network'')),
     insert_ticket = (\<lambda>_ _. Inl (ProviderError ''network'')),
     update_ticket = (\<lambda>_ _. Inl (ProviderError ''network'')),
     select_activities = (\<lambda>_. Inl (ProviderError ''network''))\<rparr>"

definition backend_empty :: backend where
  "backend_empty = \<lparr>
     select_tickets = (\<lambda>_. Inr []),
     insert_ticket = (\<lambda>_ _. Inl (ProviderError ''insert rejected'')),
     update_ticket = (\<lambda>_ _. Inl (ProviderError ''no rows'')),
     select_activities = (\<lambda>_. Inr [])\<rparr>"

definition ntf_ok :: notifier where
  "ntf_ok = \<lparr>
     notifyTicketCreated = (\<lambda>_. Inr ()),
     notifyTicketResolved = (\<lambda>_ _. Inr ()),
     notifyTicketAssigned = (\<lambda>_ _ _. Inr ())\<rparr>"

definition ntf_fail :: notifier where
  "ntf_fail = \<lparr>
     notifyTicketCreated = (\<lambda>_. Inl (ProviderError ''push'')),
     notifyTicketResolved = (\<lambda>_ _. Inl (ProviderError ''push'')),
     notifyTicketAssigned = (\<lambda>_ _ _. Inl (ProviderError ''push''))\<rparr>"

definition draft_ac :: ticket_data where
  "draft_ac = \<lparr>d_title = ''AC repair'', d_description = ''Unit is not cooling'',
     d_type = None, d_priority = None, d_location = ''Building A'',
     d_equipment_id = None, d_due_date = None\<rparr>"

definition draft_empty :: ticket_data where
  "draft_empty = \<lparr>d_title = [], d_description = [], d_type = None, d_priority = None,
     d_location = [], d_equipment_id = None, d_due_date = None\<rparr>"

text \<open>The ticket the in-memory provider builds from \<open>draft_ac\<close> for the engineer.\<close>

definition ticket4 :: "time \<Rightarrow> time \<Rightarrow> ticket" where
  "ticket4 now1 now2 = \<lparr>id' = ''4'', ticket_number = Some ''TKT-004'',
     title = ''AC repair'', description = ''Unit is not cooling'',
     type' = Maintenance, priority = Medium, status = Open,
     location = ''Building A'', equipment_id = None,
     created_by = ''3'', assigned_to = None, verified_by = None,
     created_at = now1, updated_at = now2,
     assigned_at = None, resolved_at = None, verified_at = None,
     due_date = None, notes' = None,
     created_by_profile = Some mock_engineer, assigned_to_profile = None,
     verified_by_profile = None\<rparr>"

text \<open>
  The body of an update request is JSON: a key whose value is \<open>undefined\<close> is not in it.
\<close>

fun sent :: "'a jsopt upd \<Rightarrow> 'a jsopt upd" where
  "sent (Present Undefined) = Absent"
| "sent u = u"

definition json_body :: "updates \<Rightarrow> updates" where
  "json_body u = u\<lparr>
     u_equipment_id := sent (u_equipment_id u),
     u_assigned_to := sent (u_assigned_to u),
     u_verified_by := sent (u_verified_by u),
     u_assigned_at := sent (u_assigned_at u),
     u_resolved_at := sent (u_resolved_at u),
     u_verified_at := sent (u_verified_at u),
     u_due_date := sent (u_due_date u)\<rparr>"

text \<open>
  A live backend that holds a table of tickets and answers like a database: a select
  returns the rows, filtered when a filter is sent, an insert returns the new row with
  the columns the database fills in, and an update returns the row with the columns of
  the request body written.
\<close>

definition inserted_row :: "ticket_data \<Rightarrow> string \<Rightarrow> ticket" where
  "inserted_row d uid = \<lparr>id' = ''row-1'', ticket_number = None,
     title = d_title d, description = d_description d,
     type' = (case d_type d of None \<Rightarrow> Maintenance | Some ty \<Rightarrow> ty),
     priority = (case d_priority d of None \<Rightarrow> Medium | Some p \<Rightarrow> p),
     status = Open, location = d_location d, equipment_id = d_equipment_id d,
     created_by = uid, assigned_to = None, verified_by = None,
     created_at = 1705400000000, updated_at = 1705400000000,
     assigned_at = None, resolved_at = None, verified_at = None,
     due_date = d_due_date d, notes' = None,
     created_by_profile = None, assigned_to_profile = None, verified_by_profile = None\<rparr>"

definition backend_table :: "ticket list \<Rightarrow> backend" where
  "backend_table rows = \<lparr>
     select_tickets = (\<lambda>uid. Inr (case uid of None \<Rightarrow> rows | Some u \<Rightarrow> filter (visible_to u) rows)),
     insert_ticket = (\<lambda>d uid. Inr (inserted_row d uid)),
     update_ticket = (\<lambda>tid u. case find (\<lambda>t. id' t = tid) rows of
                                 None \<Rightarrow> Inl (ProviderError ''no rows'')
                               | Some t \<Rightarrow> Inr (spread t (json_body u))),
     select_activities = (\<lambda>_. Inr [])\<rparr>"

text \<open>The list read of \<open>dbHelpers\<close> as an operation of a session.\<close>

definition list_op :: "backend \<Rightarrow> string option \<Rightarrow> role option \<Rightarrow> ticket list operation" where
  "list_op b userId rl = \<lparr>
     op_name = ''getTicketsWithRelations'',
     op_live = select_tickets b
       (if rl = Some Field_engineer \<and> truthy_str userId then userId else None),
     op_mock = mock_getTicketsWithRelations userId rl\<rparr>"

section \<open>Role-scoped listing\<close>

lemmas tickets_defs = mockTickets_def mockTicket1_def mockTicket2_def mockTicket3_def

lemmas fixtures = mock_db0_def mockTickets_def mockTicket1_def mockTicket2_def mockTicket3_def
  mockUsers0_def mock_admin_def mock_supervisor_def mock_engineer_def world0_def env_of_def
  backend_down_def backend_empty_def ntf_ok_def ntf_fail_def draft_ac_def draft_empty_def



lemma mock_list_no_userId_fun:
  "mock_getTicketsWithRelations None rl = (\<lambda>m. (Inr (currentMockTickets m), m))"
  by (rule ext) (simp add: mock_getTicketsWithRelations_def)

text \<open>
  When the live backend does not answer the list query (the flag is down, Supabase is
  not configured, or the query rejects), \<open>loadTickets\<close> shows what the in-memory
  provider returns, whatever the fallback feature flag says.
\<close>

lemma loadTickets_mock:
  assumes "user e = Some uid" "profile e = Some rl"
    and "\<not> supabaseAvailable w \<or> \<not> isConfigured e \<or>
         isl (select_tickets b (if rl = Field_engineer \<and> uid \<noteq> [] then Some uid else None))"
  shows "tickets (loadTickets e b w) =
     (if rl = Field_engineer \<and> uid \<noteq> [] then filter (visible_to uid) (currentMockTickets (mock w))
      else currentMockTickets (mock w))"
  using assms
  by (auto simp add: loadTickets_def dbHelpers_getTicketsWithRelations_def withFallback_def
      run_mock_def mock_getTicketsWithRelations_def visible_to_def [abs_def] Let_def isl_def
      split: sum.splits prod.splits)



text \<open>
  C10. Outside the guard \<open>role === 'field_engineer' && userId\<close>, so in particular with
  the role \<open>field_engineer\<close> and no user id, both helpers leave the
  created-by/assigned-to filter out: the in-memory provider returns the full stored list,
  and \<open>dbHelpers\<close> sends the live backend the query without the filter and falls back to
  the full stored list. Inside the guard \<open>dbHelpers\<close> sends the query with the filter.
  So either helper filters only when the role is \<open>field_engineer\<close> and a user id is
  supplied.
\<close>

theorem list_without_userId:
  "mock_getTicketsWithRelations None (Some Field_engineer) m = (Inr (currentMockTickets m), m)
   \<and> dbHelpers_getTicketsWithRelations e b None (Some Field_engineer) w
       = withFallback e (select_tickets b None) (\<lambda>m. (Inr (currentMockTickets m), m))
           ''getTicketsWithRelations'' w
   \<and> (\<not> (rl = Some Field_engineer \<and> truthy_str userId) \<longrightarrow>
        mock_getTicketsWithRelations userId rl m = (Inr (currentMockTickets m), m)
      \<and> dbHelpers_getTicketsWithRelations e b userId rl w
          = withFallback e (select_tickets b None) (\<lambda>m. (Inr (currentMockTickets m), m))
              ''getTicketsWithRelations'' w)
   \<and> (rl = Some Field_engineer \<and> truthy_str userId \<longrightarrow>
        dbHelpers_getTicketsWithRelations e b userId rl w
          = withFallback e (select_tickets b userId)
              (\<lambda>m. (Inr (filter (\<lambda>t. Some (created_by t) = userId \<or> assigned_to t = userId)
                            (currentMockTickets m)), m))
              ''getTicketsWithRelations'' w)
   \<and> (fst (mock_getTicketsWithRelations userId rl m) \<noteq> Inr (currentMockTickets m)
        \<longrightarrow> rl = Some Field_engineer \<and> userId \<noteq> None)
   \<and> (dbHelpers_getTicketsWithRelations e b userId rl w
         \<noteq> withFallback e (select_tickets b None) (\<lambda>m. (Inr (currentMockTickets m), m))
              ''getTicketsWithRelations'' w
        \<longrightarrow> rl = Some Field_engineer \<and> userId \<noteq> None)"
proof -
  have unf: "mock_getTicketsWithRelations userId rl = (\<lambda>m. (Inr (currentMockTickets m), m))"
    if "\<not> (rl = Some Field_engineer \<and> truthy_str userId)"
    using that by (intro ext) (auto simp add: mock_getTicketsWithRelations_def)
  have flt: "mock_getTicketsWithRelations userId rl
       = (\<lambda>m. (Inr (filter (\<lambda>t. Some (created_by t) = userId \<or> assigned_to t = userId)
                            (currentMockTickets m)), m))"
    if "rl = Some Field_engineer \<and> truthy_str userId"
    using that by (intro ext) (simp add: mock_getTicketsWithRelations_def)
  have live_unf: "dbHelpers_getTicketsWithRelations e b userId rl w
          = withFallback e (select_tickets b None) (\<lambda>m. (Inr (currentMockTickets m), m))
              ''getTicketsWithRelations'' w"
    if "\<not> (rl = Some Field_engineer \<and> truthy_str userId)"
    using that unf [OF that] by (auto simp add: dbHelpers_getTicketsWithRelations_def)
  have guard: "rl = Some Field_engineer \<and> userId \<noteq> None"
    if "rl = Some Field_engineer \<and> truthy_str userId"
    using that by (cases userId) auto
  show ?thesis
  proof (intro conjI impI)
    show "mock_getTicketsWithRelations None (Some Field_engineer) m
            = (Inr (currentMockTickets m), m)"
      by (simp add: mock_list_no_userId_fun)
    show "dbHelpers_getTicketsWithRelations e b None (Some Field_engineer) w
       = withFallback e (select_tickets b None) (\<lambda>m. (Inr (currentMockTickets m), m))
           ''getTicketsWithRelations'' w"
      by (simp add: dbHelpers_getTicketsWithRelations_def mock_list_no_userId_fun)
  next
    assume a: "\<not> (rl = Some Field_engineer \<and> truthy_str userId)"
    show "mock_getTicketsWithRelations userId rl m = (Inr (currentMockTickets m), m)"
      by (simp add: unf [OF a])
    show "dbHelpers_getTicketsWithRelations e b userId rl w
          = withFallback e (select_tickets b None) (\<lambda>m. (Inr (currentMockTickets m), m))
              ''getTicketsWithRelations'' w"
      by (rule live_unf [OF a])
  next
    assume a: "rl = Some Field_engineer \<and> truthy_str userId"
    show "dbHelpers_getTicketsWithRelations e b userId rl w
          = withFallback e (select_tickets b userId)
              (\<lambda>m. (Inr (filter (\<lambda>t. Some (created_by t) = userId \<or> assigned_to t = userId)
                            (currentMockTickets m)), m))
              ''getTicketsWithRelations'' w"
      using a flt [OF a] by (simp add: dbHelpers_getTicketsWithRelations_def)
  next
    assume a: "fst (mock_getTicketsWithRelations userId rl m) \<noteq> Inr (currentMockTickets m)"
    have "rl = Some Field_engineer \<and> truthy_str userId"
      using a unf by fastforce
    then have g: "rl = Some Field_engineer \<and> userId \<noteq> None" by (rule guard)
    from g show "rl = Some Field_engineer" by simp
    from g show "userId \<noteq> None" by simp
  next
    assume a: "dbHelpers_getTicketsWithRelations e b userId rl w
         \<noteq> withFallback e (select_tickets b None) (\<lambda>m. (Inr (currentMockTickets m), m))
              ''getTicketsWithRelations'' w"
    have "rl = Some Field_engineer \<and> truthy_str userId"
      using a live_unf by blast
    then have g: "rl = Some Field_engineer \<and> userId \<noteq> None" by (rule guard)
    from g show "rl = Some Field_engineer" by simp
    from g show "userId \<noteq> None" by simp
  qed
qed

text \<open>
  The theorem on the fixtures: no user id with the role \<open>field_engineer\<close>, the id \<open>2\<close>
  with no role, and the id \<open>2\<close> with the role \<open>field_engineer\<close>, for which the live
  table is asked with the filter and the in-memory list is a proper part of the stored
  one.
\<close>

theorem list_without_userId_witness:
  "fst (dbHelpers_getTicketsWithRelations (env_of ''2'' Field_engineer)
         (backend_table mockTickets) None (Some Field_engineer) world0) = Inr mockTickets
   \<and> fst (dbHelpers_getTicketsWithRelations (env_of ''2'' Field_engineer)
         (backend_table mockTickets) (Some ''2'') None world0) = Inr mockTickets
   \<and> fst (mock_getTicketsWithRelations (Some ''2'') None mock_db0) = Inr mockTickets
   \<and> fst (dbHelpers_getTicketsWithRelations (env_of ''2'' Field_engineer)
         (backend_table mockTickets) (Some ''2'') (Some Field_engineer) world0)
       = Inr [mockTicket2]
   \<and> fst (mock_getTicketsWithRelations (Some ''2'') (Some Field_engineer) mock_db0)
       \<noteq> Inr (currentMockTickets mock_db0)"
  using list_without_userId [of mock_db0 "env_of ''2'' Field_engineer" "backend_table mockTickets"
      world0 None "Some ''2''"]
    list_without_userId [of mock_db0 "env_of ''2'' Field_engineer" "backend_table mockTickets"
      world0 "Some Field_engineer" "Some ''2''"]
  by (simp add: withFallback_def backend_table_def mock_getTicketsWithRelations_def
      visible_to_def Let_def fixtures)

section \<open>The fallback circuit breaker\<close>

lemma world_mock_id [simp]: "w\<lparr>mock := mock w\<rparr> = w"
  by simp

lemma probe_when_down:
  "\<not> supabaseAvailable w \<Longrightarrow> snd (checkSupabaseConnection e probe w) = w"
  by (cases w) (simp add: checkSupabaseConnection_def split: sum.splits)

lemma probe_ok:
  "\<not> isl probe \<Longrightarrow> snd (checkSupabaseConnection e probe w) = w"
  by (cases probe) (simp_all add: checkSupabaseConnection_def)

lemma probe_fails:
  "isConfigured e \<Longrightarrow> isl probe \<Longrightarrow>
     snd (checkSupabaseConnection e probe w) = w\<lparr>supabaseAvailable := False\<rparr>"
  by (cases probe) (simp_all add: checkSupabaseConnection_def)

lemma run_steps_tripped:
  "\<not> supabaseAvailable w \<Longrightarrow> enableMockFallback e \<Longrightarrow>
     run_steps e steps w =
       (fst (mock_ops (calls steps) (mock w)), w\<lparr>mock := snd (mock_ops (calls steps) (mock w))\<rparr>)"
proof (induction steps arbitrary: w)
  case Nil
  then show ?case by simp
next
  case (Cons s steps)
  show ?case
  proof (cases s)
    case (Call x)
    obtain r m1 where x: "op_mock x (mock w) = (r, m1)" by (cases "op_mock x (mock w)")
    have "\<not> supabaseAvailable (w\<lparr>mock := m1\<rparr>)" using Cons.prems by simp
    from Cons.IH [OF this Cons.prems(2)] show ?thesis
      using Cons.prems x Call by (simp add: withFallback_def run_mock_def split: prod.splits)
  next
    case (Probe_done probe)
    from Cons.IH [OF Cons.prems] show ?thesis
      using Probe_done Cons.prems(1) by (simp add: probe_when_down)
  qed
qed

lemma run_steps_live:
  "supabaseAvailable w \<Longrightarrow> isConfigured e \<Longrightarrow> \<forall>s\<in>set pre. step_ok s \<Longrightarrow>
     run_steps e (pre @ rest) w =
       (map op_live (calls pre)
          @ fst (run_steps e rest (w\<lparr>supabaseCalls := supabaseCalls w @ map op_name (calls pre)\<rparr>)),
        snd (run_steps e rest (w\<lparr>supabaseCalls := supabaseCalls w @ map op_name (calls pre)\<rparr>)))"
proof (induction pre arbitrary: w)
  case Nil
  then show ?case by simp
next
  case (Cons s pre)
  show ?case
  proof (cases s)
    case (Call x)
    with Cons.prems obtain r where r: "op_live x = Inr r" by (cases "op_live x") auto
    let ?w1 = "w\<lparr>supabaseCalls := supabaseCalls w @ [op_name x]\<rparr>"
    have "supabaseAvailable ?w1" using Cons.prems by simp
    from Cons.IH [OF this Cons.prems(2)] Cons.prems(3) show ?thesis
      using Cons.prems(1,2) r Call by (simp add: withFallback_def Let_def split: prod.splits)
  next
    case (Probe_done probe)
    with Cons.prems have "\<not> isl probe" by simp
    then have "snd (checkSupabaseConnection e probe w) = w" by (rule probe_ok)
    with Cons.IH [OF Cons.prems(1,2)] Cons.prems(3) show ?thesis
      using Probe_done by simp
  qed
qed

lemma withFallback_trip:
  "supabaseAvailable w \<Longrightarrow> isConfigured e \<Longrightarrow> enableMockFallback e \<Longrightarrow> isl live \<Longrightarrow>
     withFallback e live mk name w =
       run_mock mk (w\<lparr>supabaseCalls := supabaseCalls w @ [name], supabaseAvailable := False\<rparr>)"
  by (cases live) (simp_all add: withFallback_def Let_def)

lemma run_steps_fail:
  assumes "supabaseAvailable w" and "isConfigured e" and "enableMockFallback e"
    and "\<not> step_ok f"
  shows "run_steps e (f # post) w =
     (fst (mock_ops (calls (f # post)) (mock w)),
      w\<lparr>mock := snd (mock_ops (calls (f # post)) (mock w)),
        supabaseAvailable := False,
        supabaseCalls := supabaseCalls w @ map op_name (calls [f])\<rparr>)"
proof (cases f)
  case (Call x)
  let ?w2 = "w\<lparr>supabaseCalls := supabaseCalls w @ [op_name x], supabaseAvailable := False\<rparr>"
  obtain r m1 where x: "op_mock x (mock w) = (r, m1)" by (cases "op_mock x (mock w)")
  have l: "isl (op_live x)" using assms(4) Call by simp
  have trip: "withFallback e (op_live x) (op_mock x) (op_name x) w = (r, ?w2\<lparr>mock := m1\<rparr>)"
    using assms(1-3) l x by (simp add: withFallback_trip run_mock_def)
  have rest: "run_steps e post (?w2\<lparr>mock := m1\<rparr>) =
      (fst (mock_ops (calls post) m1), ?w2\<lparr>mock := snd (mock_ops (calls post) m1)\<rparr>)"
    using assms(3) by (simp add: run_steps_tripped)
  show ?thesis
    using trip rest x Call by (simp split: prod.splits)
next
  case (Probe_done probe)
  have l: "isl probe" using assms(4) Probe_done by simp
  have rest: "run_steps e post (w\<lparr>supabaseAvailable := False\<rparr>) =
      (fst (mock_ops (calls post) (mock w)),
       w\<lparr>supabaseAvailable := False, mock := snd (mock_ops (calls post) (mock w))\<rparr>)"
    using assms(3) run_steps_tripped [of "w\<lparr>supabaseAvailable := False\<rparr>" e post] by simp
  show ?thesis
    using rest Probe_done probe_fails [OF assms(2) l] by simp
qed

lemma String_of_4 [simp]: "String_of 4 = ''4''"
  by (simp add: String_of.simps)

lemma padStart3_4 [simp]: "padStart3 ''4'' = ''004''"
  by (simp add: padStart3_def numeral_2_eq_2)

lemmas hook_defs = createTicket_def updateTicket_def assignTicket_def supabase_call_def
  run_mock_def swallow_def mock_createTicket_def mock_updateTicket_def
  dbHelpers_getTicketsWithRelations_def withFallback_def mock_getTicketsWithRelations_def

text \<open>
  C4, as amended. Take any session of operations routed through \<open>withFallback\<close> and of
  answers to the connectivity probe, with Supabase configured, the flag up and the
  mock-fallback feature enabled. As long as no live attempt and no probe has failed, each
  operation attempts the live backend and returns its answer, and the flag stays up. At
  the first failure, of an operation's live attempt or of the probe, the flag goes off;
  a failing operation has attempted the live backend and is served by the in-memory
  provider. Every later operation is served by the in-memory provider and attempts
  nothing, whatever its live outcome would be. With the feature disabled a live error
  goes to the caller, the in-memory provider and the flag untouched.
\<close>

theorem withFallback_circuit_breaker:
  "(enableMockFallback e \<and> isConfigured e \<and> supabaseAvailable w
      \<and> (\<forall>s\<in>set pre. step_ok s) \<and> \<not> step_ok f \<longrightarrow>
      run_steps e (pre @ f # post) w =
        (map op_live (calls pre) @ fst (mock_ops (calls (f # post)) (mock w)),
         w\<lparr>mock := snd (mock_ops (calls (f # post)) (mock w)),
           supabaseAvailable := False,
           supabaseCalls := supabaseCalls w @ map op_name (calls pre) @ map op_name (calls [f])\<rparr>))
   \<and> (isConfigured e \<and> supabaseAvailable w \<and> (\<forall>s\<in>set pre. step_ok s) \<longrightarrow>
      run_steps e pre w =
        (map op_live (calls pre),
         w\<lparr>supabaseCalls := supabaseCalls w @ map op_name (calls pre)\<rparr>))
   \<and> (\<not> enableMockFallback e \<and> isConfigured e \<and> supabaseAvailable w \<longrightarrow>
      withFallback e (Inl err) mk name w
        = (Inl err, w\<lparr>supabaseCalls := supabaseCalls w @ [name]\<rparr>))"
proof (intro conjI impI)
  assume a: "enableMockFallback e \<and> isConfigured e \<and> supabaseAvailable w
      \<and> (\<forall>s\<in>set pre. step_ok s) \<and> \<not> step_ok f"
  let ?w1 = "w\<lparr>supabaseCalls := supabaseCalls w @ map op_name (calls pre)\<rparr>"
  have live: "run_steps e (pre @ f # post) w =
       (map op_live (calls pre) @ fst (run_steps e (f # post) ?w1),
        snd (run_steps e (f # post) ?w1))"
    using a by (simp add: run_steps_live)
  have "supabaseAvailable ?w1" using a by simp
  from run_steps_fail [OF this, of e f post] a
  have fail: "run_steps e (f # post) ?w1 =
     (fst (mock_ops (calls (f # post)) (mock w)),
      ?w1\<lparr>mock := snd (mock_ops (calls (f # post)) (mock w)),
        supabaseAvailable := False,
        supabaseCalls := supabaseCalls ?w1 @ map op_name (calls [f])\<rparr>)"
    by simp
  show "run_steps e (pre @ f # post) w =
        (map op_live (calls pre) @ fst (mock_ops (calls (f # post)) (mock w)),
         w\<lparr>mock := snd (mock_ops (calls (f # post)) (mock w)),
           supabaseAvailable := False,
           supabaseCalls := supabaseCalls w @ map op_name (calls pre) @ map op_name (calls [f])\<rparr>)"
    unfolding live fail by simp
next
  assume a: "isConfigured e \<and> supabaseAvailable w \<and> (\<forall>s\<in>set pre. step_ok s)"
  then show "run_steps e pre w =
        (map op_live (calls pre),
         w\<lparr>supabaseCalls := supabaseCalls w @ map op_name (calls pre)\<rparr>)"
    using run_steps_live [of w e pre "[]"] by simp
next
  assume "\<not> enableMockFallback e \<and> isConfigured e \<and> supabaseAvailable w"
  then show "withFallback e (Inl err) mk name w
        = (Inl err, w\<lparr>supabaseCalls := supabaseCalls w @ [name]\<rparr>)"
    by (simp add: withFallback_def Let_def)
qed

text \<open>
  The theorem on list reads of the engineer of the fixtures: a read that is answered, a
  probe that is answered, a read that fails and a read that could succeed again; then a
  read that is answered, a probe that fails, and a read that could succeed; and a failing
  read with the feature disabled.
\<close>

theorem withFallback_circuit_breaker_witness:
  "run_steps (env_of ''3'' Field_engineer)
     ([Call (list_op backend_empty (Some ''3'') (Some Field_engineer)), Probe_done (Inr ())]
       @ Call (list_op backend_down (Some ''3'') (Some Field_engineer))
       # [Call (list_op backend_empty (Some ''3'') (Some Field_engineer))]) world0
     = ([Inr [], Inr mockTickets, Inr mockTickets],
        world0\<lparr>supabaseAvailable := False,
          supabaseCalls := [''getTicketsWithRelations'', ''getTicketsWithRelations'']\<rparr>)
   \<and> run_steps (env_of ''3'' Field_engineer)
     ([Call (list_op backend_empty (Some ''3'') (Some Field_engineer))]
       @ Probe_done (Inl (ProviderError ''network''))
       # [Call (list_op backend_empty (Some ''3'') (Some Field_engineer))]) world0
     = ([Inr [], Inr mockTickets],
        world0\<lparr>supabaseAvailable := False, supabaseCalls := [''getTicketsWithRelations'']\<rparr>)
   \<and> run_steps (env_of ''3'' Field_engineer)
     [Call (list_op backend_empty (Some ''3'') (Some Field_engineer)), Probe_done (Inr ())] world0
     = ([Inr []], world0\<lparr>supabaseCalls := [''getTicketsWithRelations'']\<rparr>)
   \<and> withFallback ((env_of ''3'' Field_engineer)\<lparr>enableMockFallback := False\<rparr>)
        (Inl (ProviderError ''network'')) (mock_getTicketsWithRelations (Some ''3'') (Some Field_engineer))
        ''getTicketsWithRelations'' world0
     = (Inl (ProviderError ''network''), world0\<lparr>supabaseCalls := [''getTicketsWithRelations'']\<rparr>)"
  using withFallback_circuit_breaker [of "env_of ''3'' Field_engineer" world0
      "[Call (list_op backend_empty (Some ''3'') (Some Field_engineer)), Probe_done (Inr ())]"
      "Call (list_op backend_down (Some ''3'') (Some Field_engineer))"
      "[Call (list_op backend_empty (Some ''3'') (Some Field_engineer))]"]
    withFallback_circuit_breaker [of "env_of ''3'' Field_engineer" world0
      "[Call (list_op backend_empty (Some ''3'') (Some Field_engineer))]"
      "Probe_done (Inl (ProviderError ''network''))"
      "[Call (list_op backend_empty (Some ''3'') (Some Field_engineer))]"]
    withFallback_circuit_breaker [of "(env_of ''3'' Field_engineer)\<lparr>enableMockFallback := False\<rparr>"
      world0 "[]" "Call (list_op backend_down (Some ''3'') (Some Field_engineer))" "[]"
      "ProviderError ''network''" "mock_getTicketsWithRelations (Some ''3'') (Some Field_engineer)"
      "''getTicketsWithRelations''"]
  by (simp add: list_op_def mock_getTicketsWithRelations_def fixtures)

text \<open>
  C4 as stated fails on the hook's own operations, which do not go through
  \<open>withFallback\<close>. A \<open>createTicket\<close> whose live insert fails is served by the
  in-memory provider and leaves the flag up, so the list read that follows attempts the
  live backend and returns its answer, without the new ticket. With the flag already
  down \<open>createTicket\<close> still attempts the live insert, and with the feature disabled it
  still falls back instead of passing the error on.
\<close>

theorem withFallback_circuit_breaker_counterexample:
  "fst (createTicket (env_of ''3'' Field_engineer) backend_down ntf_ok 1000 1000 draft_ac world0)
     = Inr (ticket4 1000 1000)
   \<and> supabaseAvailable
       (snd (createTicket (env_of ''3'' Field_engineer) backend_down ntf_ok 1000 1000 draft_ac world0))
   \<and> dbHelpers_getTicketsWithRelations (env_of ''3'' Field_engineer) backend_empty
        (Some ''3'') (Some Field_engineer)
        (snd (createTicket (env_of ''3'' Field_engineer) backend_down ntf_ok 1000 1000 draft_ac world0))
     = (Inr [],
        world0\<lparr>mock := mock_db0\<lparr>currentMockTickets := ticket4 1000 1000 # mockTickets,
                                 nextTicketId := 5\<rparr>,
          supabaseCalls := [''tickets.insert'', ''getTicketsWithRelations''],
          tickets := [ticket4 1000 1000]\<rparr>)
   \<and> supabaseCalls
       (snd (createTicket (env_of ''3'' Field_engineer) backend_down ntf_ok 1000 1000 draft_ac
          (world0\<lparr>supabaseAvailable := False\<rparr>)))
     = [''tickets.insert'']
   \<and> fst (createTicket ((env_of ''3'' Field_engineer)\<lparr>enableMockFallback := False\<rparr>)
        backend_down ntf_ok 1000 1000 draft_ac world0)
     = Inr (ticket4 1000 1000)"
  by (simp add: hook_defs fixtures ticket4_def Let_def)

section \<open>Updates and the lifecycle\<close>

lemma findIndex_lt: "findIndex P xs = Some i \<Longrightarrow> i < length xs"
  by (induction xs arbitrary: i) (auto split: if_splits)

lemma findIndex_holds: "findIndex P xs = Some i \<Longrightarrow> P (xs ! i)"
  by (induction xs arbitrary: i) (auto split: if_splits)

lemma findIndex_None: "findIndex P xs = None \<longleftrightarrow> (\<forall>x\<in>set xs. \<not> P x)"
  by (induction xs) auto

lemma spread_lifecycle [simp]:
  "status (spread t u) = pick (status t) (u_status u)"
  "assigned_to (spread t u) = pick_opt (assigned_to t) (u_assigned_to u)"
  "verified_by (spread t u) = pick_opt (verified_by t) (u_verified_by u)"
  "assigned_at (spread t u) = pick_opt (assigned_at t) (u_assigned_at u)"
  "resolved_at (spread t u) = pick_opt (resolved_at t) (u_resolved_at u)"
  "verified_at (spread t u) = pick_opt (verified_at t) (u_verified_at u)"
  by (simp_all add: spread_def)

lemma mock_updateTicket_found:
  assumes "findIndex (\<lambda>t. id' t = tid) (currentMockTickets m) = Some i"
  shows "\<exists>tk. mock_updateTicket tid upds now m
           = (Inr tk, m\<lparr>currentMockTickets := (currentMockTickets m)[i := tk]\<rparr>)
     \<and> status tk = pick (status (currentMockTickets m ! i)) (u_status upds)
     \<and> assigned_to tk = pick_opt (assigned_to (currentMockTickets m ! i)) (u_assigned_to upds)
     \<and> verified_by tk = pick_opt (verified_by (currentMockTickets m ! i)) (u_verified_by upds)
     \<and> assigned_at tk = pick_opt (assigned_at (currentMockTickets m ! i)) (u_assigned_at upds)
     \<and> resolved_at tk = pick_opt (resolved_at (currentMockTickets m ! i)) (u_resolved_at upds)
     \<and> verified_at tk = pick_opt (verified_at (currentMockTickets m ! i)) (u_verified_at upds)
     \<and> updated_at tk = now"
  using assms by (simp add: mock_updateTicket_def Let_def split: option.splits)

lemma mock_updateTicket_missing:
  "findIndex (\<lambda>t. id' t = tid) (currentMockTickets m) = None \<Longrightarrow>
     mock_updateTicket tid upds now m = (Inl TicketNotFound, m)"
  by (simp add: mock_updateTicket_def)

text \<open>
  An update whose live attempt fails is the in-memory provider's update, followed by the
  replacement in the hook's \<open>tickets\<close>.
\<close>

lemma updateTicket_mock_path:
  assumes "user e = Some uid" and "isl (update_ticket b tid (dbUpdates upds uid ns))"
  shows "updateTicket e b ntf ns nm tid upds w =
     (case mock_updateTicket tid upds nm (mock w) of
        (Inl err, m') \<Rightarrow> (Inl err, (snd (supabase_call e (update_ticket b tid (dbUpdates upds uid ns)) ''tickets.update'' w))\<lparr>mock := m'\<rparr>)
      | (Inr tk, m') \<Rightarrow> (Inr tk, (snd (supabase_call e (update_ticket b tid (dbUpdates upds uid ns)) ''tickets.update'' w))
            \<lparr>mock := m', tickets := map (\<lambda>t. if id' t = tid then tk else t) (tickets w)\<rparr>))"
  using assms
  by (cases "update_ticket b tid (dbUpdates upds uid ns)")
     (auto simp add: updateTicket_def supabase_call_def run_mock_def swallow_def
       split: sum.splits prod.splits)

lemma findIndex_fixtures [simp]:
  "findIndex (\<lambda>t. id' t = ''1'') mockTickets = Some 0"
  "findIndex (\<lambda>t. id' t = ''2'') mockTickets = Some 1"
  "findIndex (\<lambda>t. id' t = ''3'') mockTickets = Some 2"
  by (simp_all add: fixtures)

text \<open>
  C1, as amended. \<open>updateTicket\<close> checks no transition. When the live backend does not
  take the update, an update of a stored ticket that requests a status succeeds and
  stores that status, whatever the status was; an update of an id that is not stored fails
  with "Ticket not found" and leaves the stored tickets as they were.
\<close>

theorem update_applies_requested_status:
  assumes "user e = Some uid"
    and "isl (update_ticket b tid (dbUpdates upds uid ns))"
    and "u_status upds = Present s"
  shows "(findIndex (\<lambda>t. id' t = tid) (currentMockTickets (mock w)) = None \<longrightarrow>
            fst (updateTicket e b ntf ns nm tid upds w) = Inl TicketNotFound
          \<and> mock (snd (updateTicket e b ntf ns nm tid upds w)) = mock w
          \<and> tickets (snd (updateTicket e b ntf ns nm tid upds w)) = tickets w)
       \<and> (\<forall>i. findIndex (\<lambda>t. id' t = tid) (currentMockTickets (mock w)) = Some i \<longrightarrow>
            (\<exists>tk. fst (updateTicket e b ntf ns nm tid upds w) = Inr tk
               \<and> status tk = s
               \<and> currentMockTickets (mock (snd (updateTicket e b ntf ns nm tid upds w)))
                    = (currentMockTickets (mock w))[i := tk]))"
proof (intro conjI impI allI)
  assume n: "findIndex (\<lambda>t. id' t = tid) (currentMockTickets (mock w)) = None"
  have r: "updateTicket e b ntf ns nm tid upds w =
      (Inl TicketNotFound, snd (supabase_call e (update_ticket b tid (dbUpdates upds uid ns)) ''tickets.update'' w))"
    using updateTicket_mock_path [OF assms(1,2)] mock_updateTicket_missing [OF n]
    by (simp add: supabase_call_def)
  show "fst (updateTicket e b ntf ns nm tid upds w) = Inl TicketNotFound" by (simp add: r)
  show "mock (snd (updateTicket e b ntf ns nm tid upds w)) = mock w"
    by (simp add: r supabase_call_def)
  show "tickets (snd (updateTicket e b ntf ns nm tid upds w)) = tickets w"
    by (simp add: r supabase_call_def)
next
  fix i assume f: "findIndex (\<lambda>t. id' t = tid) (currentMockTickets (mock w)) = Some i"
  from mock_updateTicket_found [OF f, of upds nm] obtain tk where
    tk: "mock_updateTicket tid upds nm (mock w)
           = (Inr tk, (mock w)\<lparr>currentMockTickets := (currentMockTickets (mock w))[i := tk]\<rparr>)"
    and st: "status tk = pick (status (currentMockTickets (mock w) ! i)) (u_status upds)"
    by blast
  show "\<exists>tk. fst (updateTicket e b ntf ns nm tid upds w) = Inr tk
               \<and> status tk = s
               \<and> currentMockTickets (mock (snd (updateTicket e b ntf ns nm tid upds w)))
                    = (currentMockTickets (mock w))[i := tk]"
    using updateTicket_mock_path [OF assms(1,2), of ntf nm w] tk st assms(3)
    by (intro exI [of _ tk]) (simp add: supabase_call_def)
qed

text \<open>
  The theorem on the resolved ticket of the fixtures, reopened, and on an id that is not
  stored.
\<close>

theorem update_applies_requested_status_witness:
  "user (env_of ''3'' Field_engineer) = Some ''3''
   \<and> isl (update_ticket backend_down ''3''
        (dbUpdates (no_updates\<lparr>u_status := Present Open\<rparr>) ''3'' 1705400000000))
   \<and> (\<exists>tk. fst (updateTicket (env_of ''3'' Field_engineer) backend_down ntf_ok
               1705400000000 1705400000001 ''3'' (no_updates\<lparr>u_status := Present Open\<rparr>) world0)
             = Inr tk
         \<and> status tk = Open
         \<and> currentMockTickets (mock (snd (updateTicket (env_of ''3'' Field_engineer) backend_down
               ntf_ok 1705400000000 1705400000001 ''3'' (no_updates\<lparr>u_status := Present Open\<rparr>)
               world0)))
             = (currentMockTickets (mock world0))[2 := tk])
   \<and> fst (updateTicket (env_of ''3'' Field_engineer) backend_down ntf_ok
               1705400000000 1705400000001 ''9'' (no_updates\<lparr>u_status := Present Open\<rparr>) world0)
         = Inl TicketNotFound
   \<and> mock (snd (updateTicket (env_of ''3'' Field_engineer) backend_down ntf_ok
               1705400000000 1705400000001 ''9'' (no_updates\<lparr>u_status := Present Open\<rparr>) world0))
         = mock world0"
  using update_applies_requested_status [of "env_of ''3'' Field_engineer" "''3''" backend_down
      "''3''" "no_updates\<lparr>u_status := Present Open\<rparr>" 1705400000000 Open world0 ntf_ok
      1705400000001]
    update_applies_requested_status [of "env_of ''3'' Field_engineer" "''3''" backend_down
      "''9''" "no_updates\<lparr>u_status := Present Open\<rparr>" 1705400000000 Open world0 ntf_ok
      1705400000001]
  by (simp add: env_of_def backend_down_def world0_def mock_db0_def findIndex_None)
     (simp add: fixtures)

text \<open>
  C1 as stated fails: the open ticket of the fixtures is closed in one update, which is
  no edge of the transition table, and the update succeeds.
\<close>

theorem update_applies_requested_status_counterexample:
  "fst (updateTicket (env_of ''3'' Field_engineer) backend_down ntf_ok
          1705400000000 1705400000001 ''1'' (no_updates\<lparr>u_status := Present Closed\<rparr>) world0)
     = Inr (mockTicket1\<lparr>status := Closed, updated_at := 1705400000001\<rparr>)
   \<and> map status (currentMockTickets (mock (snd (updateTicket (env_of ''3'' Field_engineer)
          backend_down ntf_ok 1705400000000 1705400000001 ''1''
          (no_updates\<lparr>u_status := Present Closed\<rparr>) world0))))
     = [Closed, In_progress, Resolved]
   \<and> status mockTicket1 = Open
   \<and> \<not> transition_table Open Closed"
  by (simp add: updateTicket_def supabase_call_def run_mock_def swallow_def mock_updateTicket_def
      notify_update_def dbUpdates_def no_updates_def spread_def Let_def fixtures)

lemma dbUpdates_assign [simp]: "dbUpdates (assign_updates a na) uid ns = assign_updates a na"
  by (cases a) (simp_all add: dbUpdates_def assign_updates_def no_updates_def Let_def)

lemma assign_updates_keys [simp]:
  "u_assigned_to (assign_updates a na) = Present (case a of None \<Rightarrow> Null | Some x \<Rightarrow> Val x)"
  "u_status (assign_updates a na) = Present (if truthy_str a then Assigned else Open)"
  "u_assigned_at (assign_updates a na) = Present (if truthy_str a then Val na else Undefined)"
  "u_resolved_at (assign_updates a na) = Absent"
  "u_verified_at (assign_updates a na) = Absent"
  by (simp_all add: assign_updates_def no_updates_def)

lemmas update_eval = updateTicket_def assignTicket_def assign_updates_def supabase_call_def
  run_mock_def swallow_def mock_updateTicket_def notify_update_def dbUpdates_def no_updates_def
  spread_def Let_def

text \<open>An update that the live backend takes returns the backend's row for the payload sent.\<close>

lemma updateTicket_live_path:
  assumes "user e = Some uid" and "isConfigured e"
    and "update_ticket b tid (dbUpdates upds uid ns) = Inr row"
  shows "updateTicket e b ntf ns nm tid upds w =
     (Inr row, w\<lparr>supabaseCalls := supabaseCalls w @ [''tickets.update''],
                 tickets := map (\<lambda>t. if id' t = tid then row else t) (tickets w)\<rparr>)"
  using assms by (simp add: updateTicket_def supabase_call_def swallow_def split: sum.splits)

text \<open>
  C2, as amended. A lifecycle timestamp of a stored ticket follows the patch. The
  in-memory provider keeps \<open>assigned_at\<close>, \<open>resolved_at\<close> and \<open>verified_at\<close> when
  the patch has no such key and replaces each by the patch's value, also by
  \<open>undefined\<close>, when it has one. \<open>assignTicket\<close> with an assignee carries the current
  time as \<open>assigned_at\<close> on every call: the in-memory provider stores it also on a
  ticket that is assigned already, and the live backend is sent it and its row returned.
  Without an assignee the patch carries \<open>assigned_to: null\<close> and
  \<open>assigned_at: undefined\<close>, and the in-memory provider clears both fields.
  \<open>updateTicket\<close> with a patch of status \<open>assigned\<close> or \<open>resolved\<close> and no
  timestamp of its own sends the live backend the current time for it, whatever is
  stored, and returns the row the backend answers to that payload.
\<close>

theorem lifecycle_timestamps_follow_patch:
  "(user e = Some uid \<and> isl (update_ticket b tid (assign_updates a na))
      \<and> findIndex (\<lambda>t. id' t = tid) (currentMockTickets (mock w)) = Some i \<longrightarrow>
      (\<exists>tk. fst (assignTicket e b ntf na ns nm tid a w) = Inr tk
         \<and> currentMockTickets (mock (snd (assignTicket e b ntf na ns nm tid a w)))
              = (currentMockTickets (mock w))[i := tk]
         \<and> assigned_to tk = a
         \<and> assigned_at tk = (if truthy_str a then Some na else None)
         \<and> resolved_at tk = resolved_at (currentMockTickets (mock w) ! i)
         \<and> verified_at tk = verified_at (currentMockTickets (mock w) ! i)))
   \<and> (user e = Some uid \<and> isConfigured e
      \<and> update_ticket b tid (assign_updates a na) = Inr row \<longrightarrow>
      assignTicket e b ntf na ns nm tid a w =
        (Inr row, w\<lparr>supabaseCalls := supabaseCalls w @ [''tickets.update''],
                    tickets := map (\<lambda>t. if id' t = tid then row else t) (tickets w)\<rparr>)
      \<and> u_assigned_at (assign_updates a na)
           = Present (if truthy_str a then Val na else Undefined)
      \<and> u_assigned_to (assign_updates a na)
           = Present (case a of None \<Rightarrow> Null | Some x \<Rightarrow> Val x))
   \<and> (findIndex (\<lambda>t. id' t = tid) (currentMockTickets (mock w)) = Some i \<longrightarrow>
      (\<exists>tk. fst (mock_updateTicket tid upds nm (mock w)) = Inr tk
         \<and> assigned_at tk
              = pick_opt (assigned_at (currentMockTickets (mock w) ! i)) (u_assigned_at upds)
         \<and> resolved_at tk
              = pick_opt (resolved_at (currentMockTickets (mock w) ! i)) (u_resolved_at upds)
         \<and> verified_at tk
              = pick_opt (verified_at (currentMockTickets (mock w) ! i)) (u_verified_at upds)))
   \<and> (user e = Some uid \<and> isConfigured e
      \<and> u_status upds = Present Assigned \<and> \<not> truthy_date (u_assigned_at upds)
      \<and> update_ticket b tid (dbUpdates upds uid ns) = Inr row \<longrightarrow>
      updateTicket e b ntf ns nm tid upds w =
        (Inr row, w\<lparr>supabaseCalls := supabaseCalls w @ [''tickets.update''],
                    tickets := map (\<lambda>t. if id' t = tid then row else t) (tickets w)\<rparr>)
      \<and> u_assigned_at (dbUpdates upds uid ns) = Present (Val ns))
   \<and> (user e = Some uid \<and> isConfigured e
      \<and> u_status upds = Present Resolved \<and> \<not> truthy_date (u_resolved_at upds)
      \<and> update_ticket b tid (dbUpdates upds uid ns) = Inr row \<longrightarrow>
      updateTicket e b ntf ns nm tid upds w =
        (Inr row, w\<lparr>supabaseCalls := supabaseCalls w @ [''tickets.update''],
                    tickets := map (\<lambda>t. if id' t = tid then row else t) (tickets w)\<rparr>)
      \<and> u_resolved_at (dbUpdates upds uid ns) = Present (Val ns))"
proof (intro conjI impI)
  assume a: "user e = Some uid \<and> isl (update_ticket b tid (assign_updates a na))
      \<and> findIndex (\<lambda>t. id' t = tid) (currentMockTickets (mock w)) = Some i"
  then have u: "user e = Some uid"
    and fi: "findIndex (\<lambda>t. id' t = tid) (currentMockTickets (mock w)) = Some i" by simp_all
  from mock_updateTicket_found [OF fi, of "assign_updates a na" nm] obtain tk where
    tk: "mock_updateTicket tid (assign_updates a na) nm (mock w)
           = (Inr tk, (mock w)\<lparr>currentMockTickets := (currentMockTickets (mock w))[i := tk]\<rparr>)"
    and f: "assigned_to tk = pick_opt (assigned_to (currentMockTickets (mock w) ! i))
                (u_assigned_to (assign_updates a na))"
       "assigned_at tk = pick_opt (assigned_at (currentMockTickets (mock w) ! i))
                (u_assigned_at (assign_updates a na))"
       "resolved_at tk = pick_opt (resolved_at (currentMockTickets (mock w) ! i))
                (u_resolved_at (assign_updates a na))"
       "verified_at tk = pick_opt (verified_at (currentMockTickets (mock w) ! i))
                (u_verified_at (assign_updates a na))"
    by blast
  have l: "isl (update_ticket b tid (dbUpdates (assign_updates a na) uid ns))"
    using a by simp
  have at: "assigned_to tk = a" using f(1) by (cases a) simp_all
  show "\<exists>tk. fst (assignTicket e b ntf na ns nm tid a w) = Inr tk
         \<and> currentMockTickets (mock (snd (assignTicket e b ntf na ns nm tid a w)))
              = (currentMockTickets (mock w))[i := tk]
         \<and> assigned_to tk = a
         \<and> assigned_at tk = (if truthy_str a then Some na else None)
         \<and> resolved_at tk = resolved_at (currentMockTickets (mock w) ! i)
         \<and> verified_at tk = verified_at (currentMockTickets (mock w) ! i)"
    using updateTicket_mock_path [OF u l, of ntf nm w] tk f(2-4) at
    by (intro exI [of _ tk]) (simp add: assignTicket_def supabase_call_def)
next
  assume a: "user e = Some uid \<and> isConfigured e
      \<and> update_ticket b tid (assign_updates a na) = Inr row"
  then have "update_ticket b tid (dbUpdates (assign_updates a na) uid ns) = Inr row" by simp
  with a show "assignTicket e b ntf na ns nm tid a w =
        (Inr row, w\<lparr>supabaseCalls := supabaseCalls w @ [''tickets.update''],
                    tickets := map (\<lambda>t. if id' t = tid then row else t) (tickets w)\<rparr>)"
    unfolding assignTicket_def
    using updateTicket_live_path [of e uid b tid "assign_updates a na" ns row ntf nm w] by simp
  show "u_assigned_at (assign_updates a na)
           = Present (if truthy_str a then Val na else Undefined)" by simp
  show "u_assigned_to (assign_updates a na)
           = Present (case a of None \<Rightarrow> Null | Some x \<Rightarrow> Val x)" by simp
next
  assume fi: "findIndex (\<lambda>t. id' t = tid) (currentMockTickets (mock w)) = Some i"
  from mock_updateTicket_found [OF fi, of upds nm]
  show "\<exists>tk. fst (mock_updateTicket tid upds nm (mock w)) = Inr tk
         \<and> assigned_at tk
              = pick_opt (assigned_at (currentMockTickets (mock w) ! i)) (u_assigned_at upds)
         \<and> resolved_at tk
              = pick_opt (resolved_at (currentMockTickets (mock w) ! i)) (u_resolved_at upds)
         \<and> verified_at tk
              = pick_opt (verified_at (currentMockTickets (mock w) ! i)) (u_verified_at upds)"
    by auto
next
  assume a: "user e = Some uid \<and> isConfigured e
      \<and> u_status upds = Present Assigned \<and> \<not> truthy_date (u_assigned_at upds)
      \<and> update_ticket b tid (dbUpdates upds uid ns) = Inr row"
  then show "updateTicket e b ntf ns nm tid upds w =
        (Inr row, w\<lparr>supabaseCalls := supabaseCalls w @ [''tickets.update''],
                    tickets := map (\<lambda>t. if id' t = tid then row else t) (tickets w)\<rparr>)"
    using updateTicket_live_path [of e uid b tid upds ns row ntf nm w] by simp
  from a show "u_assigned_at (dbUpdates upds uid ns) = Present (Val ns)"
    by (simp add: dbUpdates_def Let_def)
next
  assume a: "user e = Some uid \<and> isConfigured e
      \<and> u_status upds = Present Resolved \<and> \<not> truthy_date (u_resolved_at upds)
      \<and> update_ticket b tid (dbUpdates upds uid ns) = Inr row"
  then show "updateTicket e b ntf ns nm tid upds w =
        (Inr row, w\<lparr>supabaseCalls := supabaseCalls w @ [''tickets.update''],
                    tickets := map (\<lambda>t. if id' t = tid then row else t) (tickets w)\<rparr>)"
    using updateTicket_live_path [of e uid b tid upds ns row ntf nm w] by simp
  from a show "u_resolved_at (dbUpdates upds uid ns) = Present (Val ns)"
    by (simp add: dbUpdates_def Let_def)
qed

text \<open>
  The theorem on the supervisor of the fixtures: assigning ticket 1 to the engineer with
  the live backend down; assigning the assigned ticket 2 again on a live table, whose row
  carries the new time; an in-memory update of ticket 2 whose patch has
  \<open>assigned_at: undefined\<close>; and marking ticket 2 assigned, then resolved, on a live
  table.
\<close>

theorem lifecycle_timestamps_follow_patch_witness:
  "(\<exists>tk. fst (assignTicket (env_of ''2'' Supervisor) backend_down ntf_ok 1705400000000
                 1705400000001 1705400000002 ''1'' (Some ''3'') world0) = Inr tk
         \<and> assigned_to tk = Some ''3''
         \<and> assigned_at tk = Some 1705400000000)
   \<and> assigned_at mockTicket2 = Some 1705230000000
   \<and> fst (assignTicket (env_of ''2'' Supervisor) (backend_table mockTickets) ntf_ok
          1705400000000 1705400000001 1705400000002 ''2'' (Some ''3'') world0)
       = Inr (mockTicket2\<lparr>status := Assigned, assigned_at := Some 1705400000000\<rparr>)
   \<and> (\<exists>tk. fst (mock_updateTicket ''2'' (no_updates\<lparr>u_assigned_at := Present Undefined\<rparr>)
                 1705400000002 (mock world0)) = Inr tk
         \<and> assigned_at tk = None \<and> resolved_at tk = None)
   \<and> fst (updateTicket (env_of ''2'' Supervisor) (backend_table mockTickets) ntf_ok
          1705400000001 1705400000002 ''2'' (no_updates\<lparr>u_status := Present Assigned\<rparr>) world0)
       = Inr (mockTicket2\<lparr>status := Assigned, assigned_at := Some 1705400000001\<rparr>)
   \<and> fst (updateTicket (env_of ''2'' Supervisor) (backend_table mockTickets) ntf_ok
          1705400000001 1705400000002 ''2'' (no_updates\<lparr>u_status := Present Resolved\<rparr>) world0)
       = Inr (mockTicket2\<lparr>status := Resolved, resolved_at := Some 1705400000001\<rparr>)"
proof -
  let ?E = "env_of ''2'' Supervisor"
  let ?T = "backend_table mockTickets"
  have u: "user ?E = Some ''2''" and c: "isConfigured ?E" by (simp_all add: env_of_def)
  have i1: "findIndex (\<lambda>t. id' t = ''1'') (currentMockTickets (mock world0)) = Some 0"
    and i2: "findIndex (\<lambda>t. id' t = ''2'') (currentMockTickets (mock world0)) = Some 1"
    by (simp_all add: world0_def mock_db0_def)
  have d: "isl (update_ticket backend_down ''1'' (assign_updates (Some ''3'') 1705400000000))"
    by (simp add: backend_down_def)
  have f2: "find (\<lambda>t. id' t = ''2'') mockTickets = Some mockTicket2"
    by (simp add: tickets_defs)
  have l1: "update_ticket ?T ''2'' (assign_updates (Some ''3'') 1705400000000)
      = Inr (mockTicket2\<lparr>status := Assigned, assigned_at := Some 1705400000000\<rparr>)"
    by (simp add: backend_table_def f2)
       (simp add: assign_updates_def no_updates_def json_body_def spread_def mockTicket2_def)
  have l2: "update_ticket ?T ''2''
        (dbUpdates (no_updates\<lparr>u_status := Present Assigned\<rparr>) ''2'' 1705400000001)
      = Inr (mockTicket2\<lparr>status := Assigned, assigned_at := Some 1705400000001\<rparr>)"
    by (simp add: backend_table_def f2)
       (simp add: dbUpdates_def no_updates_def json_body_def spread_def mockTicket2_def Let_def)
  have l3: "update_ticket ?T ''2''
        (dbUpdates (no_updates\<lparr>u_status := Present Resolved\<rparr>) ''2'' 1705400000001)
      = Inr (mockTicket2\<lparr>status := Resolved, resolved_at := Some 1705400000001\<rparr>)"
    by (simp add: backend_table_def f2)
       (simp add: dbUpdates_def no_updates_def json_body_def spread_def mockTicket2_def Let_def)
  have n: "u_status (no_updates\<lparr>u_status := Present Assigned\<rparr>) = Present Assigned"
      "\<not> truthy_date (u_assigned_at (no_updates\<lparr>u_status := Present Assigned\<rparr>))"
      "u_status (no_updates\<lparr>u_status := Present Resolved\<rparr>) = Present Resolved"
      "\<not> truthy_date (u_resolved_at (no_updates\<lparr>u_status := Present Resolved\<rparr>))"
    by (simp_all add: no_updates_def)
  have a1: "\<exists>tk. fst (assignTicket ?E backend_down ntf_ok 1705400000000
                 1705400000001 1705400000002 ''1'' (Some ''3'') world0) = Inr tk
         \<and> assigned_to tk = Some ''3''
         \<and> assigned_at tk = Some 1705400000000"
    using lifecycle_timestamps_follow_patch [where e = ?E and uid = "''2''" and b = backend_down
        and tid = "''1''" and a = "Some ''3''" and na = 1705400000000 and w = world0 and i = 0
        and ntf = ntf_ok and ns = 1705400000001 and nm = 1705400000002, THEN conjunct1]
      u d i1 by auto
  have a2: "fst (assignTicket ?E ?T ntf_ok
          1705400000000 1705400000001 1705400000002 ''2'' (Some ''3'') world0)
       = Inr (mockTicket2\<lparr>status := Assigned, assigned_at := Some 1705400000000\<rparr>)"
    using lifecycle_timestamps_follow_patch [where e = ?E and uid = "''2''" and b = ?T
        and tid = "''2''" and a = "Some ''3''" and na = 1705400000000 and w = world0
        and ntf = ntf_ok and ns = 1705400000001 and nm = 1705400000002
        and row = "mockTicket2\<lparr>status := Assigned, assigned_at := Some 1705400000000\<rparr>",
        THEN conjunct2, THEN conjunct1]
      u c l1 by simp
  have a3: "\<exists>tk. fst (mock_updateTicket ''2'' (no_updates\<lparr>u_assigned_at := Present Undefined\<rparr>)
                 1705400000002 (mock world0)) = Inr tk
         \<and> assigned_at tk = None \<and> resolved_at tk = None"
    using lifecycle_timestamps_follow_patch [where tid = "''2''" and w = world0 and i = 1
        and upds = "no_updates\<lparr>u_assigned_at := Present Undefined\<rparr>" and nm = 1705400000002,
        THEN conjunct2, THEN conjunct2, THEN conjunct1]
      i2 by (auto simp add: no_updates_def world0_def mock_db0_def tickets_defs)
  have a4: "fst (updateTicket ?E ?T ntf_ok
          1705400000001 1705400000002 ''2'' (no_updates\<lparr>u_status := Present Assigned\<rparr>) world0)
       = Inr (mockTicket2\<lparr>status := Assigned, assigned_at := Some 1705400000001\<rparr>)"
    using lifecycle_timestamps_follow_patch [where e = ?E and uid = "''2''" and b = ?T
        and tid = "''2''" and w = world0
        and ntf = ntf_ok and ns = 1705400000001 and nm = 1705400000002
        and upds = "no_updates\<lparr>u_status := Present Assigned\<rparr>"
        and row = "mockTicket2\<lparr>status := Assigned, assigned_at := Some 1705400000001\<rparr>",
        THEN conjunct2, THEN conjunct2, THEN conjunct2, THEN conjunct1]
      u c n l2 by simp
  have a5: "fst (updateTicket ?E ?T ntf_ok
          1705400000001 1705400000002 ''2'' (no_updates\<lparr>u_status := Present Resolved\<rparr>) world0)
       = Inr (mockTicket2\<lparr>status := Resolved, resolved_at := Some 1705400000001\<rparr>)"
    using lifecycle_timestamps_follow_patch [where e = ?E and uid = "''2''" and b = ?T
        and tid = "''2''" and w = world0
        and ntf = ntf_ok and ns = 1705400000001 and nm = 1705400000002
        and upds = "no_updates\<lparr>u_status := Present Resolved\<rparr>"
        and row = "mockTicket2\<lparr>status := Resolved, resolved_at := Some 1705400000001\<rparr>",
        THEN conjunct2, THEN conjunct2, THEN conjunct2, THEN conjunct2]
      u c n l3 by simp
  have a0: "assigned_at mockTicket2 = Some 1705230000000" by (simp add: mockTicket2_def)
  from a1 a0 a2 a3 a4 a5 show ?thesis by blast
qed

text \<open>
  C2 as stated fails: ticket 2 of the fixtures was assigned at 1705230000000; assigning
  it again stores the time of the new call, and unassigning it clears the timestamp.
\<close>

theorem lifecycle_timestamps_counterexample:
  "assigned_at mockTicket2 = Some 1705230000000
   \<and> map assigned_at (currentMockTickets (mock (snd (assignTicket (env_of ''2'' Supervisor)
         backend_down ntf_ok 1705400000000 1705400000001 1705400000002 ''2'' (Some ''3'') world0))))
     = [None, Some 1705400000000, Some 1704897000000]
   \<and> map assigned_at (currentMockTickets (mock (snd (assignTicket (env_of ''2'' Supervisor)
         backend_down ntf_ok 1705400000000 1705400000001 1705400000002 ''2'' None world0))))
     = [None, None, Some 1704897000000]"
  by (simp add: update_eval fixtures)

text \<open>
  C9, as amended. \<open>updateTicket\<close> checks neither the actor's role nor the ticket's
  current status. For any signed-in actor, a patch with status \<open>verified\<close> and no
  \<open>verified_at\<close> sends the live backend a payload with \<open>verified_at\<close> the current
  time and \<open>verified_by\<close> the actor's id, and when the backend takes it the operation
  returns the backend's row.
\<close>

theorem verify_stamps_payload_for_any_actor:
  assumes "user e = Some uid" and "isConfigured e"
    and "u_status upds = Present Verified" and "\<not> truthy_date (u_verified_at upds)"
    and "update_ticket b tid (dbUpdates upds uid ns) = Inr row"
  shows "fst (updateTicket e b ntf ns nm tid upds w) = Inr row
       \<and> u_verified_at (dbUpdates upds uid ns) = Present (Val ns)
       \<and> u_verified_by (dbUpdates upds uid ns) = Present (Val uid)
       \<and> u_status (dbUpdates upds uid ns) = Present Verified
       \<and> mock (snd (updateTicket e b ntf ns nm tid upds w)) = mock w"
  using assms
  by (simp add: updateTicket_def supabase_call_def swallow_def dbUpdates_def Let_def
      split: sum.splits)

text \<open>The theorem on the engineer of the fixtures verifying ticket 3 on a live table.\<close>

theorem verify_stamps_payload_for_any_actor_witness:
  "user (env_of ''3'' Field_engineer) = Some ''3''
   \<and> isConfigured (env_of ''3'' Field_engineer)
   \<and> update_ticket (backend_table mockTickets) ''3''
        (dbUpdates (no_updates\<lparr>u_status := Present Verified\<rparr>) ''3'' 1705400000000)
       = Inr (mockTicket3\<lparr>status := Verified, verified_by := Some ''3'',
                verified_at := Some 1705400000000\<rparr>)
   \<and> fst (updateTicket (env_of ''3'' Field_engineer) (backend_table mockTickets) ntf_ok
          1705400000000 1705400000001 ''3'' (no_updates\<lparr>u_status := Present Verified\<rparr>) world0)
       = Inr (mockTicket3\<lparr>status := Verified, verified_by := Some ''3'',
                verified_at := Some 1705400000000\<rparr>)"
  using verify_stamps_payload_for_any_actor [of "env_of ''3'' Field_engineer" "''3''"
      "no_updates\<lparr>u_status := Present Verified\<rparr>" "backend_table mockTickets" "''3''"
      1705400000000
      "mockTicket3\<lparr>status := Verified, verified_by := Some ''3'', verified_at := Some 1705400000000\<rparr>"
      ntf_ok 1705400000001 world0]
  by (simp add: backend_table_def dbUpdates_def no_updates_def json_body_def spread_def
      Let_def fixtures)

text \<open>
  C9 as stated fails: the field engineer of the fixtures, who has no elevated role, moves
  the resolved ticket 3 to \<open>verified\<close> and the operation succeeds.
\<close>

theorem verify_stamps_payload_for_any_actor_counterexample:
  "fst (updateTicket (env_of ''3'' Field_engineer) backend_down ntf_ok
          1705400000000 1705400000001 ''3'' (no_updates\<lparr>u_status := Present Verified\<rparr>) world0)
     = Inr (mockTicket3\<lparr>status := Verified, updated_at := 1705400000001\<rparr>)
   \<and> map status (currentMockTickets (mock (snd (updateTicket (env_of ''3'' Field_engineer)
          backend_down ntf_ok 1705400000000 1705400000001 ''3''
          (no_updates\<lparr>u_status := Present Verified\<rparr>) world0))))
     = [Open, In_progress, Verified]
   \<and> status mockTicket3 = Resolved
   \<and> profile (env_of ''3'' Field_engineer) = Some Field_engineer
   \<and> \<not> elevated Field_engineer"
  by (simp add: update_eval fixtures)

section \<open>Creating a ticket\<close>

lemma mock_createTicket_ok:
  assumes "find (\<lambda>u. p_id u = uid) (mockUsers m) = Some prof"
  shows "\<exists>tk. mock_createTicket d uid t1 t2 m
           = (Inr tk, m\<lparr>currentMockTickets := tk # currentMockTickets m,
                          nextTicketId := Suc (nextTicketId m)\<rparr>)
     \<and> id' tk = String_of (nextTicketId m)
     \<and> title tk = d_title d \<and> description tk = d_description d \<and> location tk = d_location d
     \<and> status tk = Open \<and> created_by tk = uid \<and> assigned_to tk = None
     \<and> created_at tk = t1 \<and> updated_at tk = t2"
  using assms by (simp add: mock_createTicket_def Let_def)

lemma mock_createTicket_unknown:
  "find (\<lambda>u. p_id u = uid) (mockUsers m) = None \<Longrightarrow>
     mock_createTicket d uid t1 t2 m = (Inl UserNotFound, m)"
  by (simp add: mock_createTicket_def)

lemma createTicket_mock_path:
  assumes "user e = Some uid" and "isl (insert_ticket b d uid)"
  shows "createTicket e b ntf t1 t2 d w =
     (case mock_createTicket d uid t1 t2 (mock w) of
        (Inl err, m') \<Rightarrow>
          (Inl err, (if isConfigured e then w\<lparr>supabaseCalls := supabaseCalls w @ [''tickets.insert'']\<rparr>
                     else w)\<lparr>mock := m'\<rparr>)
      | (Inr tk, m') \<Rightarrow>
          (Inr tk, (if isConfigured e then w\<lparr>supabaseCalls := supabaseCalls w @ [''tickets.insert'']\<rparr>
                    else w)\<lparr>mock := m', tickets := tk # tickets w\<rparr>))"
  using assms
  by (cases "insert_ticket b d uid")
     (auto simp add: createTicket_def supabase_call_def run_mock_def swallow_def
       split: sum.splits prod.splits)

lemma createTicket_live_path:
  assumes "user e = Some uid" and "isConfigured e" and "insert_ticket b d uid = Inr row"
  shows "createTicket e b ntf t1 t2 d w =
     (Inr row, w\<lparr>supabaseCalls := supabaseCalls w @ [''tickets.insert''],
                 tickets := row # tickets w\<rparr>)"
  using assms by (simp add: createTicket_def supabase_call_def swallow_def split: sum.splits)

lemma find_engineer [simp]: "find (\<lambda>u. p_id u = ''3'') mockUsers0 = Some mock_engineer"
  by (simp add: fixtures)

lemmas create_eval = createTicket_def supabase_call_def run_mock_def swallow_def
  mock_createTicket_def Let_def

lemma createTicket_calls:
  "user e = Some uid \<Longrightarrow>
     supabaseCalls (snd (createTicket e b ntf t1 t2 d w))
       = supabaseCalls w @ (if isConfigured e then [''tickets.insert''] else [])
   \<and> mockUsers (mock (snd (createTicket e b ntf t1 t2 d w))) = mockUsers (mock w)
   \<and> supabaseAvailable (snd (createTicket e b ntf t1 t2 d w)) = supabaseAvailable w"
  by (cases "insert_ticket b d uid"; cases "find (\<lambda>u. p_id u = uid) (mockUsers (mock w))")
     (simp_all add: create_eval)

lemma getTicketActivities_mock:
  "isl (select_activities b tid) \<Longrightarrow>
     fst (getTicketActivities e b tid n1 n2 n3 w)
       = (case fst (mock_getTicketActivities tid n1 n2 n3 (mock w)) of Inr acts \<Rightarrow> acts | Inl _ \<Rightarrow> [])"
  by (cases "select_activities b tid")
     (simp_all add: getTicketActivities_def supabase_call_def run_mock_def
        mock_getTicketActivities_def)

lemma mock_getTicketActivities_users:
  "mockUsers m' = mockUsers m \<Longrightarrow>
     fst (mock_getTicketActivities tid n1 n2 n3 m') = fst (mock_getTicketActivities tid n1 n2 n3 m)"
  by (simp add: mock_getTicketActivities_def)

text \<open>
  C5, as amended. \<open>createTicket\<close> validates no field. When nobody is signed in it fails
  with "User not authenticated" and changes nothing. For a signed-in actor, any draft,
  also one with an empty title, description or location, is sent to the live backend and
  its row returned when the backend takes it; when it does not, the in-memory provider
  stores and returns a ticket with the draft's fields, provided the actor is one of its
  users.
\<close>

theorem create_validates_nothing:
  "(user e = None \<longrightarrow> createTicket e b ntf t1 t2 d w = (Inl NotAuthenticated, w))
   \<and> (user e = Some uid \<and> isl (insert_ticket b d uid)
        \<and> find (\<lambda>u. p_id u = uid) (mockUsers (mock w)) \<noteq> None \<longrightarrow>
        (\<exists>tk. fst (createTicket e b ntf t1 t2 d w) = Inr tk
           \<and> title tk = d_title d \<and> description tk = d_description d
           \<and> location tk = d_location d
           \<and> currentMockTickets (mock (snd (createTicket e b ntf t1 t2 d w)))
                = tk # currentMockTickets (mock w)))
   \<and> (user e = Some uid \<and> isConfigured e \<and> insert_ticket b d uid = Inr row \<longrightarrow>
        fst (createTicket e b ntf t1 t2 d w) = Inr row)"
proof (intro conjI impI)
  assume "user e = None"
  then show "createTicket e b ntf t1 t2 d w = (Inl NotAuthenticated, w)"
    by (simp add: createTicket_def)
next
  assume a: "user e = Some uid \<and> isl (insert_ticket b d uid)
        \<and> find (\<lambda>u. p_id u = uid) (mockUsers (mock w)) \<noteq> None"
  then obtain prof where p: "find (\<lambda>u. p_id u = uid) (mockUsers (mock w)) = Some prof" by auto
  from mock_createTicket_ok [OF p, of d t1 t2] obtain tk where
    tk: "mock_createTicket d uid t1 t2 (mock w)
           = (Inr tk, (mock w)\<lparr>currentMockTickets := tk # currentMockTickets (mock w),
                          nextTicketId := Suc (nextTicketId (mock w))\<rparr>)"
    and f: "title tk = d_title d" "description tk = d_description d" "location tk = d_location d"
    by blast
  from a have u: "user e = Some uid" and l: "isl (insert_ticket b d uid)" by simp_all
  show "\<exists>tk. fst (createTicket e b ntf t1 t2 d w) = Inr tk
           \<and> title tk = d_title d \<and> description tk = d_description d
           \<and> location tk = d_location d
           \<and> currentMockTickets (mock (snd (createTicket e b ntf t1 t2 d w)))
                = tk # currentMockTickets (mock w)"
    using createTicket_mock_path [OF u l, of ntf t1 t2 w] tk f
    by (intro exI [of _ tk]) simp
next
  assume "user e = Some uid \<and> isConfigured e \<and> insert_ticket b d uid = Inr row"
  then show "fst (createTicket e b ntf t1 t2 d w) = Inr row"
    by (simp add: createTicket_live_path)
qed

text \<open>
  The theorem with nobody signed in, with the engineer of the fixtures on a live backend
  that is down, and on a live table that takes the insert.
\<close>

theorem create_validates_nothing_witness:
  "createTicket ((env_of ''3'' Field_engineer)\<lparr>user := None\<rparr>) backend_down ntf_ok 1000 1001
      draft_ac world0 = (Inl NotAuthenticated, world0)
   \<and> (\<exists>tk. fst (createTicket (env_of ''3'' Field_engineer) backend_down ntf_ok 1000 1001
               draft_ac world0) = Inr tk
         \<and> title tk = ''AC repair'' \<and> location tk = ''Building A''
         \<and> currentMockTickets (mock (snd (createTicket (env_of ''3'' Field_engineer) backend_down
              ntf_ok 1000 1001 draft_ac world0))) = tk # mockTickets)
   \<and> fst (createTicket (env_of ''3'' Field_engineer) (backend_table []) ntf_ok 1000 1001
           draft_ac world0) = Inr (inserted_row draft_ac ''3'')"
  using create_validates_nothing [of "(env_of ''3'' Field_engineer)\<lparr>user := None\<rparr>" backend_down
      ntf_ok 1000 1001 draft_ac world0 "''3''"]
    create_validates_nothing [of "env_of ''3'' Field_engineer" backend_down
      ntf_ok 1000 1001 draft_ac world0 "''3''"]
    create_validates_nothing [of "env_of ''3'' Field_engineer" "backend_table []"
      ntf_ok 1000 1001 draft_ac world0 "''3''" "inserted_row draft_ac ''3''"]
  by (auto simp add: env_of_def backend_down_def backend_table_def world0_def mock_db0_def
      draft_ac_def)

text \<open>
  C5 as stated fails: a draft whose title, description and location are all empty is
  created, and the store holds one ticket more.
\<close>

theorem create_validates_nothing_counterexample:
  "d_title draft_empty = [] \<and> d_description draft_empty = [] \<and> d_location draft_empty = []
   \<and> fst (createTicket (env_of ''3'' Field_engineer) backend_down ntf_ok 1000 1001
        draft_empty world0)
     = Inr ((ticket4 1000 1001)\<lparr>title := [], description := [], location := []\<rparr>)
   \<and> length (currentMockTickets (mock (snd (createTicket (env_of ''3'' Field_engineer)
        backend_down ntf_ok 1000 1001 draft_empty world0)))) = 4"
  by (simp add: create_eval ticket4_def fixtures)

text \<open>
  C6, as amended. A create appends no activity. It sends the live backend the ticket
  insert and nothing else. The activities read through the in-memory provider are three
  entries made up at each read (created by user 1, assigned by user 2, a comment by
  user 3), the same before and after the create.
\<close>

theorem create_appends_no_activity:
  assumes "user e = Some uid" and "isl (select_activities b' tid)"
  shows "supabaseCalls (snd (createTicket e b ntf t1 t2 d w))
           = supabaseCalls w @ (if isConfigured e then [''tickets.insert''] else [])
       \<and> fst (getTicketActivities e b' tid n1 n2 n3 (snd (createTicket e b ntf t1 t2 d w)))
           = fst (getTicketActivities e b' tid n1 n2 n3 w)
       \<and> map a_type (fst (getTicketActivities e b' tid n1 n2 n3 w))
           = [Created, Assigned_activity, Comment]
       \<and> map a_user_id (fst (getTicketActivities e b' tid n1 n2 n3 w)) = [''1'', ''2'', ''3'']"
proof (intro conjI)
  show "supabaseCalls (snd (createTicket e b ntf t1 t2 d w))
           = supabaseCalls w @ (if isConfigured e then [''tickets.insert''] else [])"
    using createTicket_calls [OF assms(1)] by blast
  have "mockUsers (mock (snd (createTicket e b ntf t1 t2 d w))) = mockUsers (mock w)"
    using createTicket_calls [OF assms(1)] by blast
  from mock_getTicketActivities_users [OF this]
  show "fst (getTicketActivities e b' tid n1 n2 n3 (snd (createTicket e b ntf t1 t2 d w)))
           = fst (getTicketActivities e b' tid n1 n2 n3 w)"
    by (simp add: getTicketActivities_mock [OF assms(2)])
  show "map a_type (fst (getTicketActivities e b' tid n1 n2 n3 w))
           = [Created, Assigned_activity, Comment]"
    by (simp add: getTicketActivities_mock [OF assms(2)] mock_getTicketActivities_def)
  show "map a_user_id (fst (getTicketActivities e b' tid n1 n2 n3 w)) = [''1'', ''2'', ''3'']"
    by (simp add: getTicketActivities_mock [OF assms(2)] mock_getTicketActivities_def)
qed

text \<open>The theorem on the engineer of the fixtures and the id the next ticket gets.\<close>

theorem create_appends_no_activity_witness:
  "user (env_of ''3'' Field_engineer) = Some ''3''
   \<and> isl (select_activities backend_down ''4'')
   \<and> supabaseCalls (snd (createTicket (env_of ''3'' Field_engineer) backend_down ntf_ok 1000 1001
        draft_ac world0)) = [''tickets.insert'']
   \<and> map a_type (fst (getTicketActivities (env_of ''3'' Field_engineer) backend_down ''4''
        2000 2001 2002 world0)) = [Created, Assigned_activity, Comment]"
  using create_appends_no_activity [of "env_of ''3'' Field_engineer" "''3''" backend_down "''4''"
      backend_down ntf_ok 1000 1001 draft_ac world0 2000 2001 2002]
  by (simp add: env_of_def backend_down_def world0_def)

text \<open>
  C6 as stated fails: the engineer creates ticket 4, and the activities read for ticket 4
  are the same three entries after the create as before, their \<open>created\<close> entry
  written in the name of user 1.
\<close>

theorem create_appends_no_activity_counterexample:
  "fst (createTicket (env_of ''3'' Field_engineer) backend_down ntf_ok 1000 1001 draft_ac world0)
     = Inr (ticket4 1000 1001)
   \<and> fst (getTicketActivities (env_of ''3'' Field_engineer) backend_down ''4'' 2000 2001 2002
        (snd (createTicket (env_of ''3'' Field_engineer) backend_down ntf_ok 1000 1001 draft_ac
           world0)))
     = fst (getTicketActivities (env_of ''3'' Field_engineer) backend_down ''4'' 2000 2001 2002
        world0)
   \<and> map a_type (fst (getTicketActivities (env_of ''3'' Field_engineer) backend_down ''4''
        2000 2001 2002
        (snd (createTicket (env_of ''3'' Field_engineer) backend_down ntf_ok 1000 1001 draft_ac
           world0))))
     = [Created, Assigned_activity, Comment]
   \<and> map a_user_id (fst (getTicketActivities (env_of ''3'' Field_engineer) backend_down ''4''
        2000 2001 2002
        (snd (createTicket (env_of ''3'' Field_engineer) backend_down ntf_ok 1000 1001 draft_ac
           world0))))
     = [''1'', ''2'', ''3'']"
  by (simp add: create_eval getTicketActivities_def mock_getTicketActivities_def ticket4_def
      fixtures)

section \<open>Notifications\<close>

lemma createTicket_any_notifier:
  "createTicket e b ntf t1 t2 d w = createTicket e b ntf' t1 t2 d w"
  by (simp add: createTicket_def swallow_def split: option.splits sum.splits prod.splits)

lemma updateTicket_any_notifier:
  "updateTicket e b ntf ns nm tid upds w = updateTicket e b ntf' ns nm tid upds w"
  by (simp add: updateTicket_def swallow_def split: option.splits sum.splits prod.splits)

lemma createTicket_tickets:
  "fst (createTicket e b ntf t1 t2 d w) = Inr tk \<Longrightarrow>
     tickets (snd (createTicket e b ntf t1 t2 d w)) = tk # tickets w"
  by (auto simp add: createTicket_def swallow_def supabase_call_def run_mock_def
      mock_createTicket_def Let_def split: option.splits sum.splits prod.splits if_splits)

lemma updateTicket_tickets:
  "fst (updateTicket e b ntf ns nm tid upds w) = Inr tk \<Longrightarrow>
     tickets (snd (updateTicket e b ntf ns nm tid upds w))
       = map (\<lambda>t. if id' t = tid then tk else t) (tickets w)"
  by (auto simp add: updateTicket_def swallow_def supabase_call_def run_mock_def
      mock_updateTicket_def Let_def split: option.splits sum.splits prod.splits if_splits)

lemma createTicket_stored:
  assumes "user e = Some uid" and "isl (insert_ticket b d uid)"
    and "fst (createTicket e b ntf t1 t2 d w) = Inr tk"
  shows "currentMockTickets (mock (snd (createTicket e b ntf t1 t2 d w)))
           = tk # currentMockTickets (mock w)"
proof (cases "find (\<lambda>u. p_id u = uid) (mockUsers (mock w))")
  case None
  with assms show ?thesis
    by (simp add: createTicket_mock_path mock_createTicket_unknown)
next
  case (Some prof)
  from mock_createTicket_ok [OF Some, of d t1 t2] assms show ?thesis
    by (auto simp add: createTicket_mock_path)
qed

lemma updateTicket_stored:
  assumes "user e = Some uid" and "isl (update_ticket b tid (dbUpdates upds uid ns))"
    and "fst (updateTicket e b ntf ns nm tid upds w) = Inr tk"
  shows "\<exists>i. findIndex (\<lambda>t. id' t = tid) (currentMockTickets (mock w)) = Some i
     \<and> currentMockTickets (mock (snd (updateTicket e b ntf ns nm tid upds w)))
          = (currentMockTickets (mock w))[i := tk]
     \<and> status tk = pick (status (currentMockTickets (mock w) ! i)) (u_status upds)
     \<and> updated_at tk = nm"
proof (cases "findIndex (\<lambda>t. id' t = tid) (currentMockTickets (mock w))")
  case None
  with assms show ?thesis
    by (simp add: updateTicket_mock_path mock_updateTicket_missing)
next
  case (Some i)
  from mock_updateTicket_found [OF Some, of upds nm] obtain tk' where
    tk': "mock_updateTicket tid upds nm (mock w)
           = (Inr tk', (mock w)\<lparr>currentMockTickets := (currentMockTickets (mock w))[i := tk']\<rparr>)"
    and f: "status tk' = pick (status (currentMockTickets (mock w) ! i)) (u_status upds)"
       "updated_at tk' = nm"
    by blast
  have r: "updateTicket e b ntf ns nm tid upds w =
     (Inr tk', (snd (supabase_call e (update_ticket b tid (dbUpdates upds uid ns))
                  ''tickets.update'' w))
        \<lparr>mock := (mock w)\<lparr>currentMockTickets := (currentMockTickets (mock w))[i := tk']\<rparr>,
          tickets := map (\<lambda>t. if id' t = tid then tk' else t) (tickets w)\<rparr>)"
    using updateTicket_mock_path [OF assms(1,2), of ntf nm w] tk' by simp
  with assms(3) have "tk' = tk" by simp
  with r f Some show ?thesis by simp
qed

text \<open>
  C7. Whatever the notification functions do, also when they throw, \<open>createTicket\<close> and
  \<open>updateTicket\<close> return the same result and leave the same state as with
  notifications that succeed. A successful operation returns the persisted ticket and the
  hook's \<open>tickets\<close> hold it: when the live backend takes the request the ticket is the
  backend's row, and otherwise it is the ticket that the in-memory provider has put into
  its store, a created one in front, an updated one in the place of the stored ticket,
  with the patch's status and the time of the update.
\<close>

theorem notification_failure_is_swallowed:
  "createTicket e b ntf t1 t2 d w = createTicket e b ntf_ok t1 t2 d w
   \<and> updateTicket e b ntf ns nm tid upds w = updateTicket e b ntf_ok ns nm tid upds w
   \<and> (fst (createTicket e b ntf t1 t2 d w) = Inr tk \<longrightarrow>
        tickets (snd (createTicket e b ntf t1 t2 d w)) = tk # tickets w)
   \<and> (fst (updateTicket e b ntf ns nm tid upds w) = Inr tk' \<longrightarrow>
        tickets (snd (updateTicket e b ntf ns nm tid upds w))
          = map (\<lambda>t. if id' t = tid then tk' else t) (tickets w))
   \<and> (user e = Some uid \<and> isl (insert_ticket b d uid)
        \<and> fst (createTicket e b ntf t1 t2 d w) = Inr tk \<longrightarrow>
        currentMockTickets (mock (snd (createTicket e b ntf t1 t2 d w)))
          = tk # currentMockTickets (mock w))
   \<and> (user e = Some uid \<and> isl (update_ticket b tid (dbUpdates upds uid ns))
        \<and> fst (updateTicket e b ntf ns nm tid upds w) = Inr tk' \<longrightarrow>
        (\<exists>i. findIndex (\<lambda>t. id' t = tid) (currentMockTickets (mock w)) = Some i
           \<and> currentMockTickets (mock (snd (updateTicket e b ntf ns nm tid upds w)))
                = (currentMockTickets (mock w))[i := tk']
           \<and> status tk' = pick (status (currentMockTickets (mock w) ! i)) (u_status upds)
           \<and> updated_at tk' = nm))
   \<and> (user e = Some uid \<and> isConfigured e \<and> insert_ticket b d uid = Inr row \<longrightarrow>
        createTicket e b ntf t1 t2 d w =
          (Inr row, w\<lparr>supabaseCalls := supabaseCalls w @ [''tickets.insert''],
                      tickets := row # tickets w\<rparr>))
   \<and> (user e = Some uid \<and> isConfigured e
        \<and> update_ticket b tid (dbUpdates upds uid ns) = Inr row' \<longrightarrow>
        updateTicket e b ntf ns nm tid upds w =
          (Inr row', w\<lparr>supabaseCalls := supabaseCalls w @ [''tickets.update''],
                       tickets := map (\<lambda>t. if id' t = tid then row' else t) (tickets w)\<rparr>))"
  using createTicket_any_notifier [of e b ntf t1 t2 d w ntf_ok]
    updateTicket_any_notifier [of e b ntf ns nm tid upds w ntf_ok]
    createTicket_tickets [of e b ntf t1 t2 d w tk]
    updateTicket_tickets [of e b ntf ns nm tid upds w tk']
    createTicket_stored [of e uid b d ntf t1 t2 w tk]
    updateTicket_stored [of e uid b tid upds ns ntf nm w tk']
    createTicket_live_path [of e uid b d row ntf t1 t2 w]
    updateTicket_live_path [of e uid b tid upds ns row' ntf nm w]
  by blast

text \<open>
  The theorem with notification functions that always throw: the engineer of the fixtures
  creates a ticket and resolves ticket 2 with the live backend down, and does both on a
  live table.
\<close>

theorem notification_failure_is_swallowed_witness:
  "isl (notifyTicketCreated ntf_fail (ticket4 1000 1001))
   \<and> createTicket (env_of ''3'' Field_engineer) backend_down ntf_fail 1000 1001 draft_ac world0
     = (Inr (ticket4 1000 1001),
        world0\<lparr>mock := mock_db0\<lparr>currentMockTickets := ticket4 1000 1001 # mockTickets,
                                 nextTicketId := 5\<rparr>,
          supabaseCalls := [''tickets.insert''],
          tickets := [ticket4 1000 1001]\<rparr>)
   \<and> isl (notifyTicketResolved ntf_fail
          (mockTicket2\<lparr>status := Resolved, updated_at := 1705400000001\<rparr>) ''3'')
   \<and> updateTicket (env_of ''3'' Field_engineer) backend_down ntf_fail 1705400000000
          1705400000001 ''2'' (no_updates\<lparr>u_status := Present Resolved\<rparr>)
          (world0\<lparr>tickets := mockTickets\<rparr>)
     = (Inr (mockTicket2\<lparr>status := Resolved, updated_at := 1705400000001\<rparr>),
        world0\<lparr>mock := mock_db0\<lparr>currentMockTickets :=
                    [mockTicket1, mockTicket2\<lparr>status := Resolved, updated_at := 1705400000001\<rparr>,
                     mockTicket3]\<rparr>,
          supabaseCalls := [''tickets.update''],
          tickets := [mockTicket1, mockTicket2\<lparr>status := Resolved, updated_at := 1705400000001\<rparr>,
                      mockTicket3]\<rparr>)
   \<and> (\<exists>i. findIndex (\<lambda>t. id' t = ''2'') (currentMockTickets (mock world0)) = Some i
         \<and> currentMockTickets (mock (snd (updateTicket (env_of ''3'' Field_engineer) backend_down
               ntf_fail 1705400000000 1705400000001 ''2''
               (no_updates\<lparr>u_status := Present Resolved\<rparr>) (world0\<lparr>tickets := mockTickets\<rparr>))))
            = (currentMockTickets (mock world0))
                [i := mockTicket2\<lparr>status := Resolved, updated_at := 1705400000001\<rparr>])
   \<and> createTicket (env_of ''3'' Field_engineer) (backend_table mockTickets) ntf_fail
          1000 1001 draft_ac world0
     = (Inr (inserted_row draft_ac ''3''),
        world0\<lparr>supabaseCalls := [''tickets.insert''], tickets := [inserted_row draft_ac ''3'']\<rparr>)
   \<and> fst (updateTicket (env_of ''3'' Field_engineer) (backend_table mockTickets) ntf_fail
          1705400000000 1705400000001 ''2'' (no_updates\<lparr>u_status := Present Resolved\<rparr>)
          (world0\<lparr>tickets := mockTickets\<rparr>))
     = Inr (mockTicket2\<lparr>status := Resolved, resolved_at := Some 1705400000000\<rparr>)"
proof -
  let ?E = "env_of ''3'' Field_engineer"
  let ?T = "backend_table mockTickets"
  let ?P = "no_updates\<lparr>u_status := Present Resolved\<rparr>"
  let ?W = "world0\<lparr>tickets := mockTickets\<rparr>"
  let ?tk = "mockTicket2\<lparr>status := Resolved, updated_at := 1705400000001\<rparr>"
  let ?row = "mockTicket2\<lparr>status := Resolved, resolved_at := Some 1705400000000\<rparr>"
  have u: "user ?E = Some ''3''" and c: "isConfigured ?E" by (simp_all add: env_of_def)
  have n1: "isl (notifyTicketCreated ntf_fail (ticket4 1000 1001))"
    and n2: "isl (notifyTicketResolved ntf_fail ?tk ''3'')"
    by (simp_all add: ntf_fail_def)
  have c_ok: "createTicket ?E backend_down ntf_ok 1000 1001 draft_ac world0
     = (Inr (ticket4 1000 1001),
        world0\<lparr>mock := mock_db0\<lparr>currentMockTickets := ticket4 1000 1001 # mockTickets,
                                 nextTicketId := 5\<rparr>,
          supabaseCalls := [''tickets.insert''],
          tickets := [ticket4 1000 1001]\<rparr>)"
    by (simp add: create_eval ticket4_def fixtures)
  have u_ok: "updateTicket ?E backend_down ntf_ok 1705400000000 1705400000001 ''2'' ?P ?W
     = (Inr ?tk,
        world0\<lparr>mock := mock_db0\<lparr>currentMockTickets := [mockTicket1, ?tk, mockTicket3]\<rparr>,
          supabaseCalls := [''tickets.update''],
          tickets := [mockTicket1, ?tk, mockTicket3]\<rparr>)"
    by (simp add: update_eval fixtures)
  have f2: "find (\<lambda>t. id' t = ''2'') mockTickets = Some mockTicket2"
    by (simp add: mockTickets_def mockTicket1_def mockTicket2_def mockTicket3_def)
  have l_ins: "insert_ticket ?T draft_ac ''3'' = Inr (inserted_row draft_ac ''3'')"
    by (simp add: backend_table_def)
  have l_upd: "update_ticket ?T ''2'' (dbUpdates ?P ''3'' 1705400000000) = Inr ?row"
    by (simp add: backend_table_def f2)
       (simp add: dbUpdates_def no_updates_def json_body_def spread_def mockTicket2_def Let_def)
  have d_upd: "isl (update_ticket backend_down ''2'' (dbUpdates ?P ''3'' 1705400000000))"
    by (simp add: backend_down_def)
  note T = notification_failure_is_swallowed [where e = ?E and ntf = ntf_fail and ?t1.0 = 1000
      and ?t2.0 = 1001 and d = draft_ac and ns = 1705400000000 and nm = 1705400000001
      and tid = "''2''" and upds = ?P and uid = "''3''"]
  have a1: "createTicket ?E backend_down ntf_fail 1000 1001 draft_ac world0
     = (Inr (ticket4 1000 1001),
        world0\<lparr>mock := mock_db0\<lparr>currentMockTickets := ticket4 1000 1001 # mockTickets,
                                 nextTicketId := 5\<rparr>,
          supabaseCalls := [''tickets.insert''],
          tickets := [ticket4 1000 1001]\<rparr>)"
    using T [where b = backend_down and w = world0, THEN conjunct1] c_ok by simp
  have a2: "updateTicket ?E backend_down ntf_fail 1705400000000 1705400000001 ''2'' ?P ?W
     = (Inr ?tk,
        world0\<lparr>mock := mock_db0\<lparr>currentMockTickets := [mockTicket1, ?tk, mockTicket3]\<rparr>,
          supabaseCalls := [''tickets.update''],
          tickets := [mockTicket1, ?tk, mockTicket3]\<rparr>)"
    using T [where b = backend_down and w = ?W, THEN conjunct2, THEN conjunct1] u_ok by simp
  have a3: "\<exists>i. findIndex (\<lambda>t. id' t = ''2'') (currentMockTickets (mock world0)) = Some i
         \<and> currentMockTickets (mock (snd (updateTicket ?E backend_down
               ntf_fail 1705400000000 1705400000001 ''2'' ?P ?W)))
            = (currentMockTickets (mock world0))[i := ?tk]"
    using T [where b = backend_down and w = ?W and tk' = ?tk,
        THEN conjunct2, THEN conjunct2, THEN conjunct2, THEN conjunct2, THEN conjunct2,
        THEN conjunct1]
      u d_upd a2 by (simp add: world0_def)
  have a4: "createTicket ?E ?T ntf_fail 1000 1001 draft_ac world0
     = (Inr (inserted_row draft_ac ''3''),
        world0\<lparr>supabaseCalls := [''tickets.insert''], tickets := [inserted_row draft_ac ''3'']\<rparr>)"
    using T [where b = ?T and w = world0 and row = "inserted_row draft_ac ''3''",
        THEN conjunct2, THEN conjunct2, THEN conjunct2, THEN conjunct2, THEN conjunct2,
        THEN conjunct2, THEN conjunct1]
      u c l_ins by (simp add: world0_def)
  have a5: "fst (updateTicket ?E ?T ntf_fail 1705400000000 1705400000001 ''2'' ?P ?W) = Inr ?row"
    using T [where b = ?T and w = ?W and row' = ?row,
        THEN conjunct2, THEN conjunct2, THEN conjunct2, THEN conjunct2, THEN conjunct2,
        THEN conjunct2, THEN conjunct2]
      u c l_upd by simp
  from n1 a1 n2 a2 a3 a4 a5 show ?thesis by blast
qed

section \<open>Create, then list\<close>

text \<open>
  C8, as amended. Let an actor who is signed in, has a profile and is one of the
  in-memory provider's users create a ticket while the live backend does not take the
  insert, and list right after while the live backend does not answer the list query
  either. Then the list holds the new ticket, its status is \<open>open\<close>, its
  \<open>created_by\<close> is the actor's id, and \<open>created_at\<close> and \<open>updated_at\<close> are the
  two readings of the clock that the create took, equal when the clock did not move
  between them.
\<close>

theorem create_then_list_roundtrip:
  assumes "user e = Some uid" and "profile e = Some rl"
    and "find (\<lambda>u. p_id u = uid) (mockUsers (mock w)) \<noteq> None"
    and "isl (insert_ticket b d uid)"
    and "isl (select_tickets b' (if rl = Field_engineer \<and> uid \<noteq> [] then Some uid else None))"
  shows "\<exists>tk. fst (createTicket e b ntf t1 t2 d w) = Inr tk
     \<and> tk \<in> set (tickets (loadTickets e b' (snd (createTicket e b ntf t1 t2 d w))))
     \<and> status tk = Open \<and> created_by tk = uid
     \<and> created_at tk = t1 \<and> updated_at tk = t2"
proof -
  from assms(3) obtain prof where p: "find (\<lambda>u. p_id u = uid) (mockUsers (mock w)) = Some prof"
    by auto
  from mock_createTicket_ok [OF p, of d t1 t2] obtain tk where
    tk: "mock_createTicket d uid t1 t2 (mock w)
           = (Inr tk, (mock w)\<lparr>currentMockTickets := tk # currentMockTickets (mock w),
                          nextTicketId := Suc (nextTicketId (mock w))\<rparr>)"
    and f: "status tk = Open" "created_by tk = uid" "created_at tk = t1" "updated_at tk = t2"
    by blast
  let ?w' = "snd (createTicket e b ntf t1 t2 d w)"
  have c: "fst (createTicket e b ntf t1 t2 d w) = Inr tk"
    and m: "currentMockTickets (mock ?w') = tk # currentMockTickets (mock w)"
    using createTicket_mock_path [OF assms(1,4), of ntf t1 t2 w] tk by simp_all
  have l: "tickets (loadTickets e b' ?w') =
     (if rl = Field_engineer \<and> uid \<noteq> [] then filter (visible_to uid) (currentMockTickets (mock ?w'))
      else currentMockTickets (mock ?w'))"
    using assms(5) by (intro loadTickets_mock [OF assms(1,2)]) simp
  have "tk \<in> set (tickets (loadTickets e b' ?w'))"
    unfolding l m using f(2) by (simp add: visible_to_def)
  with c f show ?thesis by blast
qed

text \<open>The theorem on the engineer of the fixtures with the live backend down.\<close>

theorem create_then_list_roundtrip_witness:
  "user (env_of ''3'' Field_engineer) = Some ''3''
   \<and> profile (env_of ''3'' Field_engineer) = Some Field_engineer
   \<and> find (\<lambda>u. p_id u = ''3'') (mockUsers (mock world0)) \<noteq> None
   \<and> isl (insert_ticket backend_down draft_ac ''3'')
   \<and> isl (select_tickets backend_down (Some ''3''))
   \<and> (\<exists>tk. fst (createTicket (env_of ''3'' Field_engineer) backend_down ntf_ok 1000 1000
               draft_ac world0) = Inr tk
         \<and> tk \<in> set (tickets (loadTickets (env_of ''3'' Field_engineer) backend_down
               (snd (createTicket (env_of ''3'' Field_engineer) backend_down ntf_ok 1000 1000
                  draft_ac world0))))
         \<and> status tk = Open \<and> created_by tk = ''3''
         \<and> created_at tk = 1000 \<and> updated_at tk = 1000)"
  using create_then_list_roundtrip [of "env_of ''3'' Field_engineer" "''3''" Field_engineer world0
      backend_down draft_ac backend_down ntf_ok 1000 1000]
  by (simp add: env_of_def backend_down_def world0_def mock_db0_def)

text \<open>
  C8 as stated fails twice. When the live insert fails and the live list query that
  follows succeeds, the ticket is created in the in-memory provider and the list, read
  from the live table, does not hold it. And when the clock moves between the two
  readings of the in-memory create, \<open>created_at\<close> and \<open>updated_at\<close> differ.
\<close>

theorem create_then_list_roundtrip_counterexample:
  "fst (createTicket (env_of ''3'' Field_engineer) backend_down ntf_ok 1000 1000 draft_ac world0)
     = Inr (ticket4 1000 1000)
   \<and> tickets (loadTickets (env_of ''3'' Field_engineer) (backend_table [])
        (snd (createTicket (env_of ''3'' Field_engineer) backend_down ntf_ok 1000 1000 draft_ac
           world0))) = []
   \<and> fst (createTicket (env_of ''3'' Field_engineer) backend_down ntf_ok 1000 1001 draft_ac world0)
     = Inr (ticket4 1000 1001)
   \<and> created_at (ticket4 1000 1001) \<noteq> updated_at (ticket4 1000 1001)"
  by (simp add: create_eval loadTickets_def dbHelpers_getTicketsWithRelations_def
      withFallback_def backend_table_def ticket4_def fixtures)

end
